theory Spec2Isabelle
  imports Main
begin

section \<open>The quantization driver script \<open>llm/run_quantization.py\<close>\<close>

text \<open>
  The script is one linear procedure, \<open>main\<close>. It parses five argument groups, validates
  flag combinations, builds a model and a tokenizer, resolves the datasets from the file
  system, transforms them, creates a trainer and runs the selected quantization strategy.

  The embedding follows the procedure statement by statement. The local variables of
  \<open>main\<close> are the fields of a state record, each block of the procedure is a step on
  that state, and a \<open>raise\<close> is the left injection of a sum carrying the exception and
  the calls made so far. Calls into the framework (argument parser, model registry,
  tokenizer, dataset loader, trainer, quantization appliers) are recorded as events in
  \<open>trace\<close>; what they return is read from an environment record. A framework call is
  taken to return; only the raises written in the script are branches of the model.
  Logger calls and values that are only passed through to the framework are left out.
\<close>

subsection \<open>Argument groups\<close>

text \<open>
  The dataclasses of \<open>utils.argument\<close>, with the fields that \<open>main\<close> branches on.
  No field of \<open>GenerateArgument\<close> is read by \<open>main\<close>; its content is kept as given.
\<close>

datatype arg_group =
  GenerateArgument | QuantArgument | ModelArgument | DataArgument | TrainingArguments

record generate_argument =
  gen_fields :: "(string \<times> string) list"

record quant_argument =
  do_ptq :: bool
  do_qat :: bool
  do_gptq :: bool
  load_quant_model :: bool
  shift :: bool
  smooth :: bool
  auto_clip :: bool

record model_argument =
  model_name_or_path :: string
  continue_training :: bool
  flash_mask :: bool

record data_argument =
  dataset_name_or_path :: "string option"
  max_length :: int
  eval_with_do_generation :: bool
  zero_padding :: bool
  greedy_zero_padding :: bool
  pad_to_max_length :: bool
  lazy :: bool

record training_arguments =
  fp16_opt_level :: string
  fp16 :: bool
  bf16 :: bool
  pipeline_parallel_degree :: int
  tensor_parallel_degree :: int
  gradient_accumulation_steps :: int
  per_device_train_batch_size :: int
  dataset_world_size :: int
  sequence_parallel :: bool
  autotuner_benchmark :: bool
  do_eval :: bool
  do_predict :: bool
  resume_from_checkpoint :: "string option"
  ignore_data_skip :: bool

text \<open>The five-tuple returned by either parsing method of \<open>PdArgumentParser\<close>.\<close>

record arguments =
  parsed_gen :: generate_argument
  parsed_quant :: quant_argument
  parsed_model :: model_argument
  parsed_data :: data_argument
  parsed_training :: training_arguments

subsection \<open>Models, datasets and events\<close>

datatype auto_class = AutoModelForCausalLM | AutoModelForCausalLMPipe

datatype py_class =
  LlamaForCausalLM | LlamaForCausalLMPipe | Qwen2ForCausalLM | Qwen2ForCausalLMPipe
  | LoRAModel | OtherClass string

text \<open>
  A model object: the classes it is an instance of (its own class and the bases), and
  the attribute \<open>config.use_flash_attention\<close>.
\<close>

record model_obj =
  classes :: "py_class list"
  use_flash_attention :: bool

definition isinstance :: "model_obj \<Rightarrow> py_class \<Rightarrow> bool" where
  "isinstance m c = (c \<in> set (classes m))"

definition flash_mask_support_list :: "py_class list" where
  "flash_mask_support_list =
     [LlamaForCausalLM, LlamaForCausalLMPipe, Qwen2ForCausalLM, Qwen2ForCausalLMPipe]"

datatype source =
  JsonFile string | JsonFiles "string list" | Registered string string

datatype trans_func = ConvertExampleCommon | GetConvertExample

datatype intoken_cls = ZeroPaddingIterableDataset | ZeroPaddingMapDataset

record map_kwargs =
  kw_is_test :: bool
  kw_zero_padding :: "bool option"
  kw_flash_mask :: "bool option"

text \<open>
  A dataset value records how it was made: loaded from a source (with the \<open>lazy\<close>
  argument where one is passed), skipped, mapped with a conversion function, or wrapped
  in a zero-padding dataset with \<open>max_length\<close> and, where passed,
  \<open>greedy_zero_padding\<close>.
\<close>

datatype dataset =
  Load source "bool option"
  | Skip dataset int
  | Map dataset trans_func map_kwargs
  | ZeroPad intoken_cls dataset int "bool option"

datatype parse_method = JsonFileAndCmdLines | CmdLines

datatype padding = PadMaxLength | PadTrue

datatype metrics = NoMetrics | ComputeMetricsDoGeneration | ComputeMetrics

datatype event =
  Parse parse_method "arg_group list"
  | PrintConfig arg_group
  | SetDevice
  | XpuAccumulateStepsOpt int
  | ConfigFromPretrained string
  | ModelFromPretrained auto_class
  | ModelFromConfig auto_class string
  | RegisterSequenceParallelAllreduceHooks
  | TokenizerFromPretrained
  | InitChatTemplate
  | LoadDataset source
  | LoadTrainerState string
  | CreateTrainer "int option" padding metrics bool
  | CreateQatModel string
  | Train
  | SaveModel bool
  | GetPtqDataloader "dataset option"
  | GetPtqModelConfig
  | ApplyShift
  | ApplySmooth
  | ApplyAutoclip
  | ApplyPtq
  | ApplyGptq
  | LoadQuantModel
  | Predict dataset
  | Evaluate "dataset option"

datatype error =
  ValueError string | NotImplementedError string | AttributeError string
  | TypeError string | UnboundLocalError string

subsection \<open>The environment and the state of \<open>main\<close>\<close>

text \<open>
  Everything \<open>main\<close> reads from outside: \<open>sys.argv\<close>, what each parsing method
  returns, the device, whether the XPU linear module can be imported, the model object a
  registry class builds, whether the tokenizer has a chat template after
  \<open>init_chat_template\<close>, \<open>os.path.exists\<close>, \<open>glob.glob\<close>, and the saved trainer
  state read on resume.
\<close>

record env =
  argv :: "string list"
  parse_json_file_and_cmd_lines :: arguments
  parse_args_into_dataclasses :: arguments
  get_env_device :: string
  xpu_linear_importable :: bool
  from_pretrained :: "auto_class \<Rightarrow> model_obj"
  from_config :: "auto_class \<Rightarrow> model_obj"
  tokenizer_chat_template :: bool
  path_exists :: "string \<Rightarrow> bool"
  glob :: "string \<Rightarrow> string list"
  state_zero_padding_global_step :: "int option"
  state_global_step :: int

record st =
  trace :: "event list"
  gen_args :: generate_argument
  quant_args :: quant_argument
  model_args :: model_argument
  data_args :: data_argument
  training_args :: training_arguments
  dtype :: string
  model_class :: auto_class
  model :: model_obj
  train_ds :: "dataset option"
  dev_ds :: "dataset option"
  ptq_ds :: "dataset option"
  trans :: trans_func
  eval_zero_padding :: bool
  intoken_dataset :: "intoken_cls option"

type_synonym 'a result = "(error \<times> event list) + 'a"

definition raise :: "error \<Rightarrow> st \<Rightarrow> st result" where
  "raise e s = Inl (e, trace s)"

definition emit :: "event list \<Rightarrow> st \<Rightarrow> st" where
  "emit es s = s\<lparr>trace := trace s @ es\<rparr>"

definition and_then :: "'a result \<Rightarrow> ('a \<Rightarrow> 'b result) \<Rightarrow> 'b result" where
  "and_then r f = (case r of Inl x \<Rightarrow> Inl x | Inr s \<Rightarrow> f s)"

fun run_steps :: "(st \<Rightarrow> st result) list \<Rightarrow> st \<Rightarrow> st result" where
  "run_steps [] s = Inr s"
| "run_steps (f # fs) s = and_then (f s) (run_steps fs)"

definition trace_of :: "st result \<Rightarrow> event list" where
  "trace_of r = (case r of Inl (e, tr) \<Rightarrow> tr | Inr s \<Rightarrow> trace s)"

subsection \<open>Python helpers\<close>

text \<open>\<open>sum\<close> of a list of booleans: \<open>True\<close> counts as 1.\<close>

definition py_sum :: "bool list \<Rightarrow> int" where
  "py_sum bs = sum_list (map (\<lambda>b. if b then 1 else 0) bs)"

definition endswith :: "string \<Rightarrow> string \<Rightarrow> bool" where
  "endswith s suf = (length suf \<le> length s \<and> drop (length s - length suf) s = suf)"

text \<open>\<open>os.path.join\<close> on a POSIX system.\<close>

definition join_step :: "string \<Rightarrow> string \<Rightarrow> string" where
  "join_step path b =
     (if b \<noteq> [] \<and> hd b = CHR ''/'' then b
      else if path = [] \<or> last path = CHR ''/'' then path @ b
      else path @ ''/'' @ b)"

definition os_path_join :: "string \<Rightarrow> string list \<Rightarrow> string" where
  "os_path_join a ps = foldl join_step a ps"

subsection \<open>Lines 69 to 100: parsing, flag check, device\<close>

definition parser_groups :: "arg_group list" where
  "parser_groups =
     [GenerateArgument, QuantArgument, ModelArgument, DataArgument, TrainingArguments]"

definition json_mode :: "string list \<Rightarrow> bool" where
  "json_mode av = (length av \<ge> 2 \<and> endswith (av ! 1) ''.json'')"

text \<open>
  The local variables assigned later in \<open>main\<close> start with placeholder values; no step
  reads one before the step that assigns it.
\<close>

definition parse_args :: "env \<Rightarrow> st" where
  "parse_args ev =
     (let a = (if json_mode (argv ev) then parse_json_file_and_cmd_lines ev
               else parse_args_into_dataclasses ev)
      in \<lparr>trace = [Parse (if json_mode (argv ev) then JsonFileAndCmdLines else CmdLines)
                      parser_groups],
          gen_args = parsed_gen a,
          quant_args = parsed_quant a,
          model_args = parsed_model a,
          data_args = parsed_data a,
          training_args = parsed_training a,
          dtype = [],
          model_class = AutoModelForCausalLM,
          model = \<lparr>classes = [], use_flash_attention = False\<rparr>,
          train_ds = None, dev_ds = None, ptq_ds = None,
          trans = GetConvertExample,
          eval_zero_padding = False,
          intoken_dataset = None\<rparr>)"

text \<open>Lines 75 to 78.\<close>

definition print_config :: "st \<Rightarrow> st result" where
  "print_config s =
     Inr (emit [PrintConfig ModelArgument, PrintConfig DataArgument,
                PrintConfig QuantArgument, PrintConfig GenerateArgument] s)"

definition quant_conflict_msg :: string where
  "quant_conflict_msg =
     ''--do_ptq, --do_gptq and --do_qat cannot work at the same time. Please choose only one at a time''"

text \<open>Lines 80 to 83.\<close>

definition check_quant_flags :: "st \<Rightarrow> st result" where
  "check_quant_flags s =
     (if py_sum [do_ptq (quant_args s), do_qat (quant_args s), do_gptq (quant_args s)] > 1
      then raise (ValueError quant_conflict_msg) s
      else Inr s)"

text \<open>Lines 86 to 100. The import inside \<open>try\<close> either succeeds or raises the
  \<open>ImportError\<close> that the handler swallows.\<close>

definition setup_device :: "env \<Rightarrow> st \<Rightarrow> st result" where
  "setup_device ev s =
     (let s1 = emit [SetDevice] s in
      if get_env_device ev = ''xpu'' \<and> gradient_accumulation_steps (training_args s1) > 1
      then (if xpu_linear_importable ev
            then Inr (emit [XpuAccumulateStepsOpt
                              (gradient_accumulation_steps (training_args s1))] s1)
            else Inr s1)
      else Inr s1)"

subsection \<open>Lines 102 to 174: model\<close>

definition dtype_msg :: string where
  "dtype_msg = ''Please specific dtype: --fp16 or --bf16''"

text \<open>Lines 103 to 111.\<close>

definition select_dtype :: "st \<Rightarrow> st result" where
  "select_dtype s =
     (if fp16_opt_level (training_args s) = ''O2''
      then (if fp16 (training_args s) then Inr (s\<lparr>dtype := ''float16''\<rparr>)
            else if bf16 (training_args s) then Inr (s\<lparr>dtype := ''bfloat16''\<rparr>)
            else raise (ValueError dtype_msg) s)
      else Inr (s\<lparr>dtype := ''float32''\<rparr>))"

text \<open>Lines 112 to 144: the call of \<open>AutoConfig.from_pretrained\<close> with the chosen dtype.\<close>

definition build_model_config :: "st \<Rightarrow> st result" where
  "build_model_config s = Inr (emit [ConfigFromPretrained (dtype s)] s)"

definition pipeline_msg :: string where
  "pipeline_msg = ''Plese set eval_with_do_generation to false in pipeline parallel mode.''"

text \<open>Lines 146 to 151.\<close>

definition select_model_class :: "st \<Rightarrow> st result" where
  "select_model_class s =
     (let s1 = s\<lparr>model_class := AutoModelForCausalLM\<rparr> in
      if pipeline_parallel_degree (training_args s1) > 1
      then (if eval_with_do_generation (data_args s1) \<and> do_eval (training_args s1)
            then raise (ValueError pipeline_msg) s1
            else Inr (s1\<lparr>model_class := AutoModelForCausalLMPipe\<rparr>))
      else Inr s1)"

text \<open>Lines 153 to 161.\<close>

definition construct_model :: "env \<Rightarrow> st \<Rightarrow> st result" where
  "construct_model ev s =
     (if continue_training (model_args s) \<and> \<not> autotuner_benchmark (training_args s)
      then Inr (emit [ModelFromPretrained (model_class s)]
                  (s\<lparr>model := from_pretrained ev (model_class s)\<rparr>))
      else Inr (emit [ModelFromConfig (model_class s) (dtype s)]
                  (s\<lparr>model := from_config ev (model_class s)\<rparr>)))"

text \<open>Lines 163 to 166.\<close>

definition force_flash_mask :: "st \<Rightarrow> st result" where
  "force_flash_mask s =
     (if flash_mask (model_args s)
         \<and> (\<not> zero_padding (data_args s) \<or> \<not> use_flash_attention (model s))
      then Inr (s\<lparr>data_args := (data_args s)\<lparr>zero_padding := True\<rparr>,
                  model := (model s)\<lparr>use_flash_attention := True\<rparr>\<rparr>)
      else Inr s)"

text \<open>
  The message of the source interpolates \<open>model.__class__\<close>; the placeholder is kept as
  written.
\<close>

definition flash_mask_msg :: string where
  "flash_mask_msg = ''{model.__class__} not support flash mask.''"

text \<open>Lines 168 and 169.\<close>

definition check_flash_mask_support :: "st \<Rightarrow> st result" where
  "check_flash_mask_support s =
     (if flash_mask (model_args s)
         \<and> \<not> list_ex (isinstance (model s)) flash_mask_support_list
      then raise (NotImplementedError flash_mask_msg) s
      else Inr s)"

text \<open>Lines 171 to 174.\<close>

definition register_hooks :: "st \<Rightarrow> st result" where
  "register_hooks s =
     (if sequence_parallel (training_args s)
      then Inr (emit [RegisterSequenceParallelAllreduceHooks] s)
      else Inr s)"

subsection \<open>Lines 175 to 284: tokenizer and dataset resolution\<close>

text \<open>Lines 176 to 185. \<open>tokenizer_chat_template\<close> says whether
  \<open>tokenizer.chat_template\<close> is not \<open>None\<close> after \<open>init_chat_template\<close>.\<close>

definition load_tokenizer :: "env \<Rightarrow> st \<Rightarrow> st result" where
  "load_tokenizer ev s =
     (let s1 = emit [TokenizerFromPretrained, InitChatTemplate] s in
      if tokenizer_chat_template ev
      then Inr (s1\<lparr>data_args := (data_args s1)\<lparr>eval_with_do_generation := False\<rparr>\<rparr>)
      else Inr s1)"

definition no_dataset_msg :: string where
  "no_dataset_msg = ''Please specific dataset name or path (got None)''"

definition quant_json_msg :: "string \<Rightarrow> string" where
  "quant_json_msg p = ''Quant strategy requires quant.json or train.json in '' @ p"

definition quant_folder_msg :: "string \<Rightarrow> string" where
  "quant_folder_msg p = ''Quant strategy requires quant or train folder in '' @ p"

text \<open>\<open>load_dataset(...)[0]\<close>: the call is recorded and the dataset value returned.\<close>

definition load_dataset :: "source \<Rightarrow> bool option \<Rightarrow> st \<Rightarrow> dataset \<times> st" where
  "load_dataset src lz s = (Load src lz, emit [LoadDataset src] s)"

text \<open>The two assignments shared by the three branches, lines 194 to 209.\<close>

definition load_train_dev :: "source \<Rightarrow> source \<Rightarrow> bool option \<Rightarrow> st \<Rightarrow> st" where
  "load_train_dev train_src dev_src lz s =
     (let s1 = (if do_qat (quant_args s)
                then (case load_dataset train_src lz s of
                        (d, s') \<Rightarrow> s'\<lparr>train_ds := Some d\<rparr>)
                else s\<lparr>train_ds := None\<rparr>)
      in if do_eval (training_args s1)
         then (case load_dataset dev_src lz s1 of (d, s') \<Rightarrow> s'\<lparr>dev_ds := Some d\<rparr>)
         else s1\<lparr>dev_ds := None\<rparr>)"

definition single_file_layout :: "env \<Rightarrow> string \<Rightarrow> bool" where
  "single_file_layout ev p =
     (path_exists ev (os_path_join p [''train.json''])
      \<or> path_exists ev (os_path_join p [''dev.json''])
      \<or> path_exists ev (os_path_join p [''quant.json'']))"

definition folder_layout :: "env \<Rightarrow> string \<Rightarrow> bool" where
  "folder_layout ev p =
     (path_exists ev (os_path_join p [''train''])
      \<or> path_exists ev (os_path_join p [''dev''])
      \<or> path_exists ev (os_path_join p [''quant'']))"

text \<open>Lines 187 to 284.\<close>

definition load_datasets :: "env \<Rightarrow> st \<Rightarrow> st result" where
  "load_datasets ev s =
     (case dataset_name_or_path (data_args s) of
        None \<Rightarrow> raise (ValueError no_dataset_msg) s
      | Some p \<Rightarrow>
          let lz = Some (lazy (data_args s)) in
          if single_file_layout ev p
          then (let s1 = load_train_dev (JsonFile (os_path_join p [''train.json'']))
                           (JsonFile (os_path_join p [''dev.json''])) lz s
                in if path_exists ev (os_path_join p [''quant.json''])
                   then (case load_dataset (JsonFile (os_path_join p [''quant.json''])) lz s1
                         of (d, s') \<Rightarrow> Inr (s'\<lparr>ptq_ds := Some d\<rparr>))
                   else if path_exists ev (os_path_join p [''train.json''])
                   then (case load_dataset (JsonFile (os_path_join p [''train.json''])) lz s1
                         of (d, s') \<Rightarrow> Inr (s'\<lparr>ptq_ds := Some d\<rparr>))
                   else raise (ValueError (quant_json_msg p)) s1)
          else if folder_layout ev p
          then (let s1 = load_train_dev
                           (JsonFiles (glob ev (os_path_join p [''train'', ''*.json''])))
                           (JsonFiles (glob ev (os_path_join p [''dev'', ''*.json'']))) lz s
                in if path_exists ev (os_path_join p [''quant''])
                   then (case load_dataset
                                (JsonFiles (glob ev (os_path_join p [''quant'', ''*.json''])))
                                lz s1
                         of (d, s') \<Rightarrow> Inr (s'\<lparr>ptq_ds := Some d\<rparr>))
                   else if path_exists ev (os_path_join p [''train''])
                   then (case load_dataset
                                (JsonFiles (glob ev (os_path_join p [''train'', ''*.json''])))
                                lz s1
                         of (d, s') \<Rightarrow> Inr (s'\<lparr>ptq_ds := Some d\<rparr>))
                   else raise (ValueError (quant_folder_msg p)) s1)
          else (let s1 = load_train_dev (Registered p ''train'') (Registered p ''dev'') None s
                in if do_ptq (quant_args s1) \<or> do_gptq (quant_args s1)
                      \<or> load_quant_model (quant_args s1)
                   then (case load_dataset (Registered p ''train'') None s1
                         of (d, s') \<Rightarrow> Inr (s'\<lparr>ptq_ds := Some d\<rparr>))
                   else Inr (s1\<lparr>ptq_ds := None\<rparr>)))"

subsection \<open>Lines 285 to 381: resuming and dataset transformation\<close>

text \<open>
  On resume with a lazy dataset the training set is advanced by the consumed samples.
  \<open>train_ds\<close> is \<open>None\<close> unless \<open>do_qat\<close> is set, and \<open>None.skip\<close> raises an
  \<open>AttributeError\<close>.
\<close>

definition skip_msg :: string where
  "skip_msg =
     CHR 0x27 # ''NoneType'' @ CHR 0x27 # '' object has no attribute '' @ CHR 0x27 # ''skip''
     @ [CHR 0x27]"

definition consumed_samples :: "env \<Rightarrow> st \<Rightarrow> int" where
  "consumed_samples ev s =
     (case state_zero_padding_global_step ev of
        Some n \<Rightarrow> n
      | None \<Rightarrow> state_global_step ev
                * per_device_train_batch_size (training_args s)
                * gradient_accumulation_steps (training_args s)
                * dataset_world_size (training_args s))"

text \<open>Lines 286 to 304.\<close>

definition resume_skip :: "env \<Rightarrow> st \<Rightarrow> st result" where
  "resume_skip ev s =
     (case resume_from_checkpoint (training_args s) of
        None \<Rightarrow> Inr s
      | Some ckpt \<Rightarrow>
          if lazy (data_args s)
          then (let s1 = emit [LoadTrainerState (os_path_join ckpt [''trainer_state.json''])]
                           (s\<lparr>training_args := (training_args s)\<lparr>ignore_data_skip := True\<rparr>\<rparr>)
                in case train_ds s1 of
                     None \<Rightarrow> raise (AttributeError skip_msg) s1
                   | Some d \<Rightarrow> Inr (s1\<lparr>train_ds := Some (Skip d (consumed_samples ev s1))\<rparr>))
          else Inr s)"

text \<open>Lines 306 to 344.\<close>

definition map_datasets :: "st \<Rightarrow> st result" where
  "map_datasets s =
     (let tf = (if pipeline_parallel_degree (training_args s) > 1
                then ConvertExampleCommon else GetConvertExample);
          kw = \<lparr>kw_is_test = False,
                kw_zero_padding = Some (zero_padding (data_args s)),
                kw_flash_mask = Some (flash_mask (model_args s))\<rparr>;
          ezp = (if zero_padding (data_args s) \<and> eval_with_do_generation (data_args s)
                 then False else zero_padding (data_args s));
          ekw = \<lparr>kw_is_test = eval_with_do_generation (data_args s),
                 kw_zero_padding = Some ezp,
                 kw_flash_mask = Some (flash_mask (model_args s))\<rparr>
      in Inr (s\<lparr>trans := tf,
                train_ds := map_option (\<lambda>d. Map d tf kw) (train_ds s),
                ptq_ds := map_option (\<lambda>d. Map d tf kw) (ptq_ds s),
                eval_zero_padding := ezp,
                dev_ds := map_option (\<lambda>d. Map d tf ekw) (dev_ds s)\<rparr>))"

text \<open>Lines 345 to 381.\<close>

definition zero_pad_datasets :: "st \<Rightarrow> st result" where
  "zero_pad_datasets s =
     (if zero_padding (data_args s)
      then (let cls = (if lazy (data_args s) then ZeroPaddingIterableDataset
                       else ZeroPaddingMapDataset);
                ml = max_length (data_args s);
                g = Some (greedy_zero_padding (data_args s));
                s1 = s\<lparr>intoken_dataset := Some cls,
                       train_ds := map_option (\<lambda>d. ZeroPad cls d ml g) (train_ds s),
                       ptq_ds := map_option (\<lambda>d. ZeroPad cls d ml g) (ptq_ds s)\<rparr>
            in if eval_zero_padding s1
               then Inr (s1\<lparr>dev_ds := map_option (\<lambda>d. ZeroPad cls d ml None) (dev_ds s1)\<rparr>)
               else Inr s1)
      else Inr s)"

subsection \<open>Lines 413 to 575: trainer, quantization, evaluation\<close>

definition is_iterable_zero_padding :: "dataset option \<Rightarrow> bool" where
  "is_iterable_zero_padding d =
     (case d of Some (ZeroPad ZeroPaddingIterableDataset _ _ _) \<Rightarrow> True | _ \<Rightarrow> False)"

text \<open>Lines 415 to 458.\<close>

definition create_trainer :: "st \<Rightarrow> st result" where
  "create_trainer s =
     (let fixed = (pipeline_parallel_degree (training_args s) > 1
                   \<or> sequence_parallel (training_args s)
                   \<or> autotuner_benchmark (training_args s)
                   \<or> zero_padding (data_args s)
                   \<or> pad_to_max_length (data_args s));
          ml = (if fixed then Some (max_length (data_args s)) else None);
          pad = (if fixed then PadMaxLength else PadTrue);
          m = (if pipeline_parallel_degree (training_args s) > 1 then NoMetrics
               else if eval_with_do_generation (data_args s) then ComputeMetricsDoGeneration
               else ComputeMetrics)
      in Inr (emit [CreateTrainer ml pad m (is_iterable_zero_padding (train_ds s))] s))"

definition merge_tensor_parallel :: "st \<Rightarrow> bool" where
  "merge_tensor_parallel s = (tensor_parallel_degree (training_args s) > 1)"

text \<open>Lines 461 to 469.\<close>

definition run_qat :: "st \<Rightarrow> st result" where
  "run_qat s =
     (if do_qat (quant_args s)
      then Inr (emit [CreateQatModel (dtype s), Train, SaveModel (merge_tensor_parallel s)] s)
      else Inr s)"

definition lora_msg :: string where
  "lora_msg =
     ''PTQ strategy not supported for LoRA model. Please merge lora parameters to pretrain model first.''"

text \<open>The calibration calls shared by the PTQ block and the load-quant-model block.\<close>

definition calibration_events :: "st \<Rightarrow> event list" where
  "calibration_events s =
     [GetPtqDataloader (ptq_ds s)]
     @ (if shift (quant_args s) \<or> smooth (quant_args s) then [GetPtqModelConfig] else [])
     @ (if shift (quant_args s) then [ApplyShift] else [])
     @ (if smooth (quant_args s) then [ApplySmooth] else [])"

text \<open>Lines 472 to 506.\<close>

definition run_ptq :: "st \<Rightarrow> st result" where
  "run_ptq s =
     (if do_ptq (quant_args s)
      then (if isinstance (model s) LoRAModel
            then raise (NotImplementedError lora_msg) s
            else Inr (emit (calibration_events s
                            @ (if auto_clip (quant_args s) then [ApplyAutoclip] else [])
                            @ [ApplyPtq, SaveModel (merge_tensor_parallel s)]) s))
      else Inr s)"

text \<open>Lines 508 to 517.\<close>

definition run_gptq :: "st \<Rightarrow> st result" where
  "run_gptq s =
     (if do_gptq (quant_args s)
      then (if isinstance (model s) LoRAModel
            then raise (NotImplementedError lora_msg) s
            else Inr (emit [GetPtqDataloader (ptq_ds s), ApplyGptq,
                            SaveModel (merge_tensor_parallel s)] s))
      else Inr s)"

text \<open>Lines 520 to 535. \<open>os.path.join\<close> on \<open>None\<close> and an unassigned
  \<open>intoken_dataset\<close> would raise; neither is reachable, and both are kept as branches.\<close>

definition run_predict :: "st \<Rightarrow> st result" where
  "run_predict s =
     (if do_predict (training_args s)
      then (case dataset_name_or_path (data_args s) of
              None \<Rightarrow> raise (TypeError ''expected str, bytes or os.PathLike object, not NoneType'') s
            | Some p \<Rightarrow>
                (case load_dataset (JsonFile (os_path_join p [''test.json'']))
                        (Some (lazy (data_args s))) s of
                   (d, s1) \<Rightarrow>
                     let t = Map d (trans s1)
                               \<lparr>kw_is_test = eval_with_do_generation (data_args s1),
                                kw_zero_padding = None, kw_flash_mask = None\<rparr>
                     in if eval_zero_padding s1
                        then (case intoken_dataset s1 of
                                None \<Rightarrow> raise (UnboundLocalError ''intoken_dataset'') s1
                              | Some cls \<Rightarrow>
                                  Inr (emit [Predict (ZeroPad cls t (max_length (data_args s1))
                                                        None)] s1))
                        else Inr (emit [Predict t] s1)))
      else Inr s)"

text \<open>Lines 537 to 568.\<close>

definition run_load_quant_model :: "st \<Rightarrow> st result" where
  "run_load_quant_model s =
     (if load_quant_model (quant_args s) \<and> \<not> do_ptq (quant_args s)
      then (if isinstance (model s) LoRAModel
            then raise (NotImplementedError lora_msg) s
            else Inr (emit (calibration_events s @ [LoadQuantModel]) s))
      else Inr s)"

text \<open>Lines 571 to 575.\<close>

definition run_eval :: "st \<Rightarrow> st result" where
  "run_eval s =
     (if do_eval (training_args s) then Inr (emit [Evaluate (dev_ds s)] s) else Inr s)"

subsection \<open>The procedure \<open>main\<close>\<close>

definition dtype_steps :: "env \<Rightarrow> (st \<Rightarrow> st result) list" where
  "dtype_steps ev = [print_config, check_quant_flags, setup_device ev, select_dtype]"

definition model_steps :: "env \<Rightarrow> (st \<Rightarrow> st result) list" where
  "model_steps ev = [build_model_config, select_model_class, construct_model ev]"

definition tokenizer_steps :: "env \<Rightarrow> (st \<Rightarrow> st result) list" where
  "tokenizer_steps ev =
     [force_flash_mask, check_flash_mask_support, register_hooks, load_tokenizer ev]"

definition setup_steps :: "env \<Rightarrow> (st \<Rightarrow> st result) list" where
  "setup_steps ev = dtype_steps ev @ model_steps ev @ tokenizer_steps ev"

definition dataset_steps :: "env \<Rightarrow> (st \<Rightarrow> st result) list" where
  "dataset_steps ev = [load_datasets ev, resume_skip ev, map_datasets, zero_pad_datasets]"

definition quant_steps :: "(st \<Rightarrow> st result) list" where
  "quant_steps = [run_qat, run_ptq, run_gptq]"

definition final_steps :: "(st \<Rightarrow> st result) list" where
  "final_steps = [run_predict, run_load_quant_model, run_eval]"

definition main :: "env \<Rightarrow> st result" where
  "main ev =
     run_steps (setup_steps ev @ dataset_steps ev @ [create_trainer] @ quant_steps @ final_steps)
       (parse_args ev)"

text \<open>
  The state with which execution arrives at the model configuration of line 112, at the
  flash-mask block of line 163, at the dataset resolution of line 187, at the dataset
  transformation of line 306, and at the quantization blocks of line 460: the steps
  before that point, run on the parsed arguments. The value is \<open>Inl\<close> when one of
  those steps raised.
\<close>

definition at_flash_mask :: "env \<Rightarrow> st result" where
  "at_flash_mask ev = run_steps (dtype_steps ev @ model_steps ev) (parse_args ev)"

definition at_model_config :: "env \<Rightarrow> st result" where
  "at_model_config ev = run_steps (dtype_steps ev) (parse_args ev)"

definition at_dataset_resolution :: "env \<Rightarrow> st result" where
  "at_dataset_resolution ev = run_steps (setup_steps ev) (parse_args ev)"

definition at_transformation :: "env \<Rightarrow> st result" where
  "at_transformation ev =
     run_steps (setup_steps ev @ [load_datasets ev, resume_skip ev]) (parse_args ev)"

definition at_quantization :: "env \<Rightarrow> st result" where
  "at_quantization ev =
     run_steps (setup_steps ev @ dataset_steps ev @ [create_trainer]) (parse_args ev)"

subsection \<open>Classifying events\<close>

fun loads_model :: "event \<Rightarrow> bool" where
  "loads_model (ConfigFromPretrained _) = True"
| "loads_model (ModelFromPretrained _) = True"
| "loads_model (ModelFromConfig _ _) = True"
| "loads_model _ = False"

fun loads_dataset :: "event \<Rightarrow> bool" where
  "loads_dataset (LoadDataset _) = True"
| "loads_dataset _ = False"

fun applies_quantization :: "event \<Rightarrow> bool" where
  "applies_quantization (CreateQatModel _) = True"
| "applies_quantization ApplyShift = True"
| "applies_quantization ApplySmooth = True"
| "applies_quantization ApplyAutoclip = True"
| "applies_quantization ApplyPtq = True"
| "applies_quantization ApplyGptq = True"
| "applies_quantization LoadQuantModel = True"
| "applies_quantization _ = False"

fun constructs_with :: "auto_class \<Rightarrow> event \<Rightarrow> bool" where
  "constructs_with c (ModelFromPretrained c') = (c' = c)"
| "constructs_with c (ModelFromConfig c' _) = (c' = c)"
| "constructs_with c _ = False"

subsection \<open>A concrete run\<close>

text \<open>
  A base configuration and environment for the concrete cases below: a JSON config file
  on the command line, no quantization flag, level O1, no parallelism, the dataset
  directory \<open>data\<close> holding only \<open>quant.json\<close>, and a Llama model.
\<close>

definition args0 :: arguments where
  "args0 =
     \<lparr>parsed_gen = \<lparr>gen_fields = []\<rparr>,
      parsed_quant = \<lparr>do_ptq = False, do_qat = False, do_gptq = False,
                      load_quant_model = False, shift = False, smooth = False,
                      auto_clip = False\<rparr>,
      parsed_model = \<lparr>model_name_or_path = ''llama'', continue_training = True,
                      flash_mask = False\<rparr>,
      parsed_data = \<lparr>dataset_name_or_path = Some ''data'', max_length = 2048,
                     eval_with_do_generation = False, zero_padding = False,
                     greedy_zero_padding = False, pad_to_max_length = False,
                     lazy = False\<rparr>,
      parsed_training = \<lparr>fp16_opt_level = ''O1'', fp16 = False, bf16 = False,
                         pipeline_parallel_degree = 1, tensor_parallel_degree = 1,
                         gradient_accumulation_steps = 1, per_device_train_batch_size = 1,
                         dataset_world_size = 1, sequence_parallel = False,
                         autotuner_benchmark = False, do_eval = False, do_predict = False,
                         resume_from_checkpoint = None, ignore_data_skip = False\<rparr>\<rparr>"

definition llama_model :: model_obj where
  "llama_model = \<lparr>classes = [LlamaForCausalLM], use_flash_attention = False\<rparr>"

definition lora_model :: model_obj where
  "lora_model = \<lparr>classes = [LoRAModel], use_flash_attention = False\<rparr>"

definition other_model :: model_obj where
  "other_model = \<lparr>classes = [OtherClass ''GPTForCausalLM''], use_flash_attention = False\<rparr>"

text \<open>The environment in which the parser returns \<open>a\<close>, the registry builds \<open>m\<close> and
  exactly the paths in \<open>files\<close> exist.\<close>

definition env_with :: "arguments \<Rightarrow> model_obj \<Rightarrow> string list \<Rightarrow> env" where
  "env_with a m files =
     \<lparr>argv = [''run_quantization.py'', ''config.json''],
      parse_json_file_and_cmd_lines = a,
      parse_args_into_dataclasses = a,
      get_env_device = ''gpu'',
      xpu_linear_importable = False,
      from_pretrained = (\<lambda>c. m),
      from_config = (\<lambda>c. m),
      tokenizer_chat_template = False,
      path_exists = (\<lambda>p. p \<in> set files),
      glob = (\<lambda>p. []),
      state_zero_padding_global_step = None,
      state_global_step = 0\<rparr>"

definition env0 :: env where
  "env0 = env_with args0 llama_model [''data/quant.json'']"

section \<open>Properties\<close>

subsection \<open>Sequencing\<close>

lemma and_then_Inl [simp]: "and_then (Inl x) f = Inl x"
  by (simp add: and_then_def)

lemma and_then_Inr [simp]: "and_then (Inr s) f = f s"
  by (simp add: and_then_def)

lemma run_steps_append: "run_steps (xs @ ys) s = and_then (run_steps xs s) (run_steps ys)"
proof (induction xs arbitrary: s)
  case Nil
  show ?case by simp
next
  case (Cons f fs)
  show ?case by (cases "f s") (simp_all add: Cons.IH)
qed

text \<open>
  An invariant of a run: when every step keeps \<open>P\<close> on success and raises only errors
  in \<open>G\<close>, the run from a state in \<open>P\<close> ends in \<open>P\<close> or raises in \<open>G\<close>.
\<close>

lemma run_steps_invariant:
  assumes step: "\<And>f a. f \<in> set fs \<Longrightarrow> P a \<Longrightarrow>
                   (case f a of Inl x \<Rightarrow> G x | Inr b \<Rightarrow> P b)"
    and init: "P s"
  shows "case run_steps fs s of Inl x \<Rightarrow> G x | Inr b \<Rightarrow> P b"
  using step init
proof (induction fs arbitrary: s)
  case Nil
  then show ?case by simp
next
  case (Cons f fs)
  have fs: "case f s of Inl x \<Rightarrow> G x | Inr b \<Rightarrow> P b"
    using Cons.prems by simp
  show ?case
  proof (cases "f s")
    case (Inl y)
    with fs show ?thesis by simp
  next
    case (Inr b)
    with fs have "P b" by simp
    moreover have "\<And>g a. g \<in> set fs \<Longrightarrow> P a \<Longrightarrow>
                   (case g a of Inl x \<Rightarrow> G x | Inr b \<Rightarrow> P b)"
      using Cons.prems(1) by simp
    ultimately have "case run_steps fs b of Inl x \<Rightarrow> G x | Inr b \<Rightarrow> P b"
      using Cons.IH by blast
    with Inr show ?thesis by simp
  qed
qed

subsection \<open>Fields after \<open>emit\<close> and after loading\<close>

lemma emit_fields [simp]:
  "trace (emit es s) = trace s @ es"
  "quant_args (emit es s) = quant_args s"
  "model_args (emit es s) = model_args s"
  "data_args (emit es s) = data_args s"
  "training_args (emit es s) = training_args s"
  "gen_args (emit es s) = gen_args s"
  "dtype (emit es s) = dtype s"
  "model_class (emit es s) = model_class s"
  "model (emit es s) = model s"
  "train_ds (emit es s) = train_ds s"
  "dev_ds (emit es s) = dev_ds s"
  "ptq_ds (emit es s) = ptq_ds s"
  "trans (emit es s) = trans s"
  "eval_zero_padding (emit es s) = eval_zero_padding s"
  "intoken_dataset (emit es s) = intoken_dataset s"
  by (simp_all add: emit_def)

lemma load_train_dev_fields [simp]:
  "trace (load_train_dev a b lz s) =
     trace s @ (if do_qat (quant_args s) then [LoadDataset a] else [])
             @ (if do_eval (training_args s) then [LoadDataset b] else [])"
  "quant_args (load_train_dev a b lz s) = quant_args s"
  "model_args (load_train_dev a b lz s) = model_args s"
  "data_args (load_train_dev a b lz s) = data_args s"
  "training_args (load_train_dev a b lz s) = training_args s"
  "model (load_train_dev a b lz s) = model s"
  "model_class (load_train_dev a b lz s) = model_class s"
  "train_ds (load_train_dev a b lz s) =
     (if do_qat (quant_args s) then Some (Load a lz) else None)"
  "dev_ds (load_train_dev a b lz s) =
     (if do_eval (training_args s) then Some (Load b lz) else None)"
  by (simp_all add: load_train_dev_def load_dataset_def Let_def)

lemma parse_args_fields [simp]:
  "trace (parse_args ev) =
     [Parse (if json_mode (argv ev) then JsonFileAndCmdLines else CmdLines) parser_groups]"
  by (simp add: parse_args_def Let_def)

lemma py_sum3:
  "(1 < py_sum [a, b, c]) = ((a \<and> b) \<or> (a \<and> c) \<or> (b \<and> c))"
  by (auto simp: py_sum_def)

lemma message_distinct [simp]:
  "dtype_msg \<noteq> quant_conflict_msg"
  "pipeline_msg \<noteq> quant_conflict_msg"
  "no_dataset_msg \<noteq> quant_conflict_msg"
  "quant_json_msg p \<noteq> quant_conflict_msg"
  "quant_folder_msg p \<noteq> quant_conflict_msg"
  by (simp_all add: dtype_msg_def pipeline_msg_def no_dataset_msg_def quant_json_msg_def
        quant_folder_msg_def quant_conflict_msg_def)

subsection \<open>What each step does to the trace and the arguments\<close>

lemmas setup_step_defs = print_config_def check_quant_flags_def setup_device_def
  select_dtype_def build_model_config_def select_model_class_def construct_model_def
  force_flash_mask_def check_flash_mask_support_def register_hooks_def load_tokenizer_def
  raise_def Let_def

lemma setup_effect:
  assumes "f \<in> set (setup_steps ev)"
  shows "case f a of
           Inl (e, tr) \<Rightarrow>
             (\<exists>es. tr = trace a @ es
                   \<and> (\<forall>x\<in>set es. \<not> loads_dataset x \<and> \<not> applies_quantization x))
             \<and> (e = ValueError quant_conflict_msg \<longrightarrow>
                  1 < py_sum [do_ptq (quant_args a), do_qat (quant_args a),
                              do_gptq (quant_args a)])
         | Inr b \<Rightarrow>
             (\<exists>es. trace b = trace a @ es
                   \<and> (\<forall>x\<in>set es. \<not> loads_dataset x \<and> \<not> applies_quantization x))
             \<and> quant_args b = quant_args a \<and> model_args b = model_args a
             \<and> training_args b = training_args a
             \<and> dataset_name_or_path (data_args b) = dataset_name_or_path (data_args a)"
  using assms unfolding setup_steps_def dtype_steps_def model_steps_def tokenizer_steps_def
  apply simp
  apply (elim disjE)
            apply (simp_all add: setup_step_defs)
  done

lemma load_datasets_effect:
  "case load_datasets ev a of
     Inl (e, tr) \<Rightarrow>
       (\<exists>es. tr = trace a @ es \<and> (\<forall>x\<in>set es. loads_dataset x))
       \<and> e \<noteq> ValueError quant_conflict_msg
   | Inr b \<Rightarrow>
       (\<exists>es. trace b = trace a @ es \<and> (\<forall>x\<in>set es. loads_dataset x))
       \<and> quant_args b = quant_args a \<and> model_args b = model_args a
       \<and> training_args b = training_args a \<and> data_args b = data_args a
       \<and> model b = model a \<and> model_class b = model_class a"
  by (auto simp: load_datasets_def load_dataset_def raise_def Let_def split: option.splits)

lemma loads_dataset_other:
  "loads_dataset x \<Longrightarrow> \<not> applies_quantization x \<and> \<not> loads_model x"
  by (cases x) simp_all

lemma constructs_with_loads_model: "constructs_with c x \<Longrightarrow> loads_model x"
  by (cases x) simp_all

lemma dataset_effect:
  assumes "f \<in> set (dataset_steps ev @ [create_trainer])"
  shows "case f a of
           Inl (e, tr) \<Rightarrow>
             (\<exists>es. tr = trace a @ es
                   \<and> (\<forall>x\<in>set es. \<not> applies_quantization x \<and> \<not> loads_model x))
             \<and> e \<noteq> ValueError quant_conflict_msg
         | Inr b \<Rightarrow>
             (\<exists>es. trace b = trace a @ es
                   \<and> (\<forall>x\<in>set es. \<not> applies_quantization x \<and> \<not> loads_model x))
             \<and> quant_args b = quant_args a \<and> model_args b = model_args a
             \<and> model b = model a
             \<and> dataset_name_or_path (data_args b) = dataset_name_or_path (data_args a)"
proof -
  from assms consider "f = load_datasets ev" | "f = resume_skip ev" | "f = map_datasets"
    | "f = zero_pad_datasets" | "f = create_trainer"
    by (auto simp: dataset_steps_def)
  then show ?thesis
  proof cases
    case 1
    show ?thesis
      using load_datasets_effect [where ev = ev and a = a] loads_dataset_other
      unfolding 1 by (cases "load_datasets ev a") auto
  next
    case 2
    show ?thesis unfolding 2
      by (simp add: resume_skip_def raise_def Let_def split: option.splits)
  next
    case 3
    show ?thesis unfolding 3 by (simp add: map_datasets_def Let_def)
  next
    case 4
    show ?thesis unfolding 4 by (simp add: zero_pad_datasets_def Let_def)
  next
    case 5
    show ?thesis unfolding 5 by (simp add: create_trainer_def Let_def)
  qed
qed

lemma final_effect:
  assumes "f \<in> set (quant_steps @ final_steps)"
  shows "case f a of
           Inl (e, tr) \<Rightarrow>
             (\<exists>es. tr = trace a @ es \<and> (\<forall>x\<in>set es. \<not> loads_model x))
             \<and> e \<noteq> ValueError quant_conflict_msg
         | Inr b \<Rightarrow>
             (\<exists>es. trace b = trace a @ es \<and> (\<forall>x\<in>set es. \<not> loads_model x))
             \<and> quant_args b = quant_args a"
  using assms unfolding quant_steps_def final_steps_def
  apply simp
  apply (elim disjE)
       apply (auto simp: run_qat_def run_ptq_def run_gptq_def run_predict_def
      run_load_quant_model_def run_eval_def calibration_events_def load_dataset_def raise_def
      Let_def split: option.splits)
  done

subsection \<open>Unfolding for concrete runs\<close>

lemmas step_defs = print_config_def check_quant_flags_def setup_device_def select_dtype_def
  build_model_config_def select_model_class_def construct_model_def force_flash_mask_def
  check_flash_mask_support_def register_hooks_def load_tokenizer_def load_datasets_def
  resume_skip_def map_datasets_def zero_pad_datasets_def create_trainer_def run_qat_def
  run_ptq_def run_gptq_def run_predict_def run_load_quant_model_def run_eval_def
  load_train_dev_def load_dataset_def calibration_events_def raise_def emit_def Let_def

lemmas list_defs = main_def at_model_config_def at_flash_mask_def at_dataset_resolution_def
  at_transformation_def at_quantization_def dtype_steps_def model_steps_def
  tokenizer_steps_def setup_steps_def dataset_steps_def quant_steps_def final_steps_def

lemmas example_defs = env0_def env_with_def args0_def llama_model_def lora_model_def
  other_model_def

lemmas aux_defs = parse_args_def json_mode_def endswith_def parser_groups_def
  os_path_join_def join_step_def py_sum_def single_file_layout_def folder_layout_def
  isinstance_def flash_mask_support_list_def merge_tensor_parallel_def
  is_iterable_zero_padding_def consumed_samples_def trace_of_def

lemmas run_defs = list_defs step_defs example_defs aux_defs

subsection \<open>Runs of \<open>main\<close>\<close>

lemma main_split_dataset:
  "main ev = and_then (at_dataset_resolution ev)
               (run_steps (dataset_steps ev @ [create_trainer] @ quant_steps @ final_steps))"
  by (simp add: main_def at_dataset_resolution_def run_steps_append)

lemma main_split_quantization:
  "main ev = and_then (at_quantization ev) (run_steps (quant_steps @ final_steps))"
  by (simp only: main_def at_quantization_def run_steps_append [symmetric] append_assoc)

lemma all_steps_cases:
  assumes "f \<in> set (setup_steps ev @ dataset_steps ev @ [create_trainer]
                      @ quant_steps @ final_steps)"
  obtains "f \<in> set (setup_steps ev)" | "f \<in> set (dataset_steps ev @ [create_trainer])"
    | "f \<in> set (quant_steps @ final_steps)"
  using assms by auto

text \<open>A run that starts with the flag check raises there when two flags are set.\<close>

lemma conflict_raises:
  assumes "1 < py_sum [do_ptq (quant_args (parse_args ev)), do_qat (quant_args (parse_args ev)),
                       do_gptq (quant_args (parse_args ev))]"
  shows "run_steps (setup_steps ev @ fs) (parse_args ev) =
           Inl (ValueError quant_conflict_msg,
                [Parse (if json_mode (argv ev) then JsonFileAndCmdLines else CmdLines)
                   parser_groups,
                 PrintConfig ModelArgument, PrintConfig DataArgument,
                 PrintConfig QuantArgument, PrintConfig GenerateArgument])"
  using assms
  by (simp add: setup_steps_def dtype_steps_def print_config_def check_quant_flags_def
        raise_def)

text \<open>No step other than the flag check raises the flag-conflict error.\<close>

lemma no_conflict_error:
  assumes ok: "\<not> 1 < py_sum [do_ptq (quant_args (parse_args ev)),
                             do_qat (quant_args (parse_args ev)),
                             do_gptq (quant_args (parse_args ev))]"
  shows "main ev \<noteq> Inl (ValueError quant_conflict_msg, tr)"
proof -
  let ?P = "\<lambda>a::st. quant_args a = quant_args (parse_args ev)"
  let ?G = "\<lambda>x::error \<times> event list. fst x \<noteq> ValueError quant_conflict_msg"
  have "case main ev of Inl x \<Rightarrow> ?G x | Inr b \<Rightarrow> ?P b"
    unfolding main_def
  proof (rule run_steps_invariant [where P = ?P and G = ?G])
    fix f :: "st \<Rightarrow> st result" and a :: st
    assume f: "f \<in> set (setup_steps ev @ dataset_steps ev @ [create_trainer]
                          @ quant_steps @ final_steps)"
      and a: "quant_args a = quant_args (parse_args ev)"
    from f show "case f a of Inl x \<Rightarrow> ?G x | Inr b \<Rightarrow> ?P b"
    proof (cases rule: all_steps_cases)
      case 1
      from setup_effect [OF 1, of a] ok a show ?thesis
        by (auto split: sum.splits)
    next
      case 2
      from dataset_effect [OF 2, of a] a show ?thesis
        by (auto split: sum.splits)
    next
      case 3
      from final_effect [OF 3, of a] a show ?thesis
        by (auto split: sum.splits)
    qed
  qed simp
  then show ?thesis by (auto split: sum.splits)
qed

subsection \<open>Flag exclusivity\<close>

text \<open>
  C1. When more than one of \<open>do_ptq\<close>, \<open>do_qat\<close>, \<open>do_gptq\<close> is set in the parsed
  configuration, \<open>main\<close> raises the flag-conflict \<open>ValueError\<close>, and no model, model
  configuration or dataset has been loaded by then. When at most one of them is set, the
  check passes every state holding those flags unchanged, and \<open>main\<close> never raises
  that error.
\<close>

theorem quant_flags_exclusive:
  assumes q: "q = quant_args (parse_args ev)"
  shows "((do_ptq q \<and> do_qat q) \<or> (do_ptq q \<and> do_gptq q) \<or> (do_qat q \<and> do_gptq q) \<longrightarrow>
            (\<exists>tr. main ev = Inl (ValueError quant_conflict_msg, tr)
                  \<and> (\<forall>x\<in>set tr. \<not> loads_model x \<and> \<not> loads_dataset x)))
       \<and> (\<not> ((do_ptq q \<and> do_qat q) \<or> (do_ptq q \<and> do_gptq q) \<or> (do_qat q \<and> do_gptq q)) \<longrightarrow>
            (\<forall>s. quant_args s = q \<longrightarrow> check_quant_flags s = Inr s)
            \<and> (\<forall>tr. main ev \<noteq> Inl (ValueError quant_conflict_msg, tr)))"
proof (intro conjI impI)
  assume "(do_ptq q \<and> do_qat q) \<or> (do_ptq q \<and> do_gptq q) \<or> (do_qat q \<and> do_gptq q)"
  then have "1 < py_sum [do_ptq (quant_args (parse_args ev)),
                         do_qat (quant_args (parse_args ev)),
                         do_gptq (quant_args (parse_args ev))]"
    unfolding q py_sum3 by blast
  from conflict_raises [OF this]
  show "\<exists>tr. main ev = Inl (ValueError quant_conflict_msg, tr)
             \<and> (\<forall>x\<in>set tr. \<not> loads_model x \<and> \<not> loads_dataset x)"
    by (simp add: main_def)
next
  assume ok: "\<not> ((do_ptq q \<and> do_qat q) \<or> (do_ptq q \<and> do_gptq q) \<or> (do_qat q \<and> do_gptq q))"
  then show "\<forall>s. quant_args s = q \<longrightarrow> check_quant_flags s = Inr s"
    by (auto simp: check_quant_flags_def py_sum3)
  from ok have "\<not> 1 < py_sum [do_ptq (quant_args (parse_args ev)),
                              do_qat (quant_args (parse_args ev)),
                              do_gptq (quant_args (parse_args ev))]"
    unfolding q py_sum3 by blast
  then show "\<forall>tr. main ev \<noteq> Inl (ValueError quant_conflict_msg, tr)"
    using no_conflict_error by blast
qed

theorem quant_flags_exclusive_witness:
  "(\<exists>tr. main (env_with (args0\<lparr>parsed_quant := (parsed_quant args0)\<lparr>do_ptq := True, do_qat := True\<rparr>\<rparr>)
                  llama_model [''data/quant.json''])
          = Inl (ValueError quant_conflict_msg, tr))
   \<and> check_quant_flags (parse_args env0) = Inr (parse_args env0)"
  using quant_flags_exclusive [OF refl, of "env_with (args0\<lparr>parsed_quant := (parsed_quant args0)\<lparr>do_ptq := True, do_qat := True\<rparr>\<rparr>)
                  llama_model [''data/quant.json'']"]
    quant_flags_exclusive [OF refl, of env0]
  by (auto simp: example_defs aux_defs)

text \<open>Every step only appends to the trace.\<close>

lemma run_trace_extends:
  assumes sub: "set fs \<subseteq> set (setup_steps ev @ dataset_steps ev @ [create_trainer]
                                   @ quant_steps @ final_steps)"
  shows "\<exists>es. trace_of (run_steps fs s) = trace s @ es"
proof -
  define t0 where "t0 = trace s"
  let ?P = "\<lambda>a::st. \<exists>es. trace a = t0 @ es"
  let ?G = "\<lambda>x::error \<times> event list. \<exists>es. snd x = t0 @ es"
  have "case run_steps fs s of Inl x \<Rightarrow> ?G x | Inr b \<Rightarrow> ?P b"
  proof (rule run_steps_invariant [where P = ?P and G = ?G])
    fix f :: "st \<Rightarrow> st result" and a :: st
    assume "f \<in> set fs" and a: "\<exists>es. trace a = t0 @ es"
    with sub have f: "f \<in> set (setup_steps ev @ dataset_steps ev @ [create_trainer]
                                  @ quant_steps @ final_steps)"
      by blast
    from f show "case f a of Inl x \<Rightarrow> ?G x | Inr b \<Rightarrow> ?P b"
    proof (cases rule: all_steps_cases)
      case 1
      from setup_effect [OF 1, of a] a show ?thesis
        by (auto split: sum.splits)
    next
      case 2
      from dataset_effect [OF 2, of a] a show ?thesis
        by (auto split: sum.splits)
    next
      case 3
      from final_effect [OF 3, of a] a show ?thesis
        by (auto split: sum.splits)
    qed
  qed (simp add: t0_def)
  then show ?thesis by (auto simp: trace_of_def t0_def split: sum.splits)
qed

lemma main_trace_extends:
  "\<exists>es. trace_of (main ev) = trace (parse_args ev) @ es"
  unfolding main_def by (rule run_trace_extends [where ev = ev]) simp

lemma endswith_iff: "endswith s suf = (\<exists>pre. s = pre @ suf)"
proof
  assume "endswith s suf"
  then have "s = take (length s - length suf) s @ suf"
    by (metis append_take_drop_id endswith_def)
  then show "\<exists>pre. s = pre @ suf" ..
next
  assume "\<exists>pre. s = pre @ suf"
  then show "endswith s suf" by (auto simp: endswith_def)
qed

lemma json_mode_iff:
  "json_mode av = (\<exists>prog pre rest. av = prog # (pre @ ''.json'') # rest)"
proof (cases av)
  case Nil
  then show ?thesis by (simp add: json_mode_def)
next
  case (Cons prog as)
  then show ?thesis
    by (cases as) (auto simp: json_mode_def endswith_iff)
qed

subsection \<open>Argument parsing\<close>

text \<open>
  C7. The parser is built over exactly five argument groups (generation, quantization,
  model, data, training) and \<open>main\<close> starts by parsing them. When \<open>sys.argv\<close> holds
  at least one argument after the program name and the first one ends with \<open>.json\<close>,
  the groups are what \<open>parse_json_file_and_cmd_lines\<close> returns; in every other case
  they are what \<open>parse_args_into_dataclasses\<close> returns.
\<close>

theorem parsing_five_groups:
  "parser_groups = [GenerateArgument, QuantArgument, ModelArgument, DataArgument,
                    TrainingArguments]
   \<and> length parser_groups = 5
   \<and> ((\<exists>prog pre rest. argv ev = prog # (pre @ ''.json'') # rest) \<longrightarrow>
        (\<exists>es. trace_of (main ev) = Parse JsonFileAndCmdLines parser_groups # es)
        \<and> \<lparr>parsed_gen = gen_args (parse_args ev), parsed_quant = quant_args (parse_args ev),
            parsed_model = model_args (parse_args ev), parsed_data = data_args (parse_args ev),
            parsed_training = training_args (parse_args ev)\<rparr>
          = parse_json_file_and_cmd_lines ev)
   \<and> (\<not> (\<exists>prog pre rest. argv ev = prog # (pre @ ''.json'') # rest) \<longrightarrow>
        (\<exists>es. trace_of (main ev) = Parse CmdLines parser_groups # es)
        \<and> \<lparr>parsed_gen = gen_args (parse_args ev), parsed_quant = quant_args (parse_args ev),
            parsed_model = model_args (parse_args ev), parsed_data = data_args (parse_args ev),
            parsed_training = training_args (parse_args ev)\<rparr>
          = parse_args_into_dataclasses ev)"
  using main_trace_extends [of ev]
  by (auto simp: parser_groups_def json_mode_iff [symmetric] parse_args_def Let_def)

theorem parsing_five_groups_witness:
  "(\<exists>es. trace_of (main env0) = Parse JsonFileAndCmdLines parser_groups # es)
   \<and> (\<exists>es. trace_of (main (env0\<lparr>argv := [''run_quantization.py'', ''--do_ptq'']\<rparr>))
             = Parse CmdLines parser_groups # es)"
  using parsing_five_groups [of env0]
    parsing_five_groups [of "env0\<lparr>argv := [''run_quantization.py'', ''--do_ptq'']\<rparr>"]
  by (auto simp: env0_def env_with_def)

subsection \<open>Arriving at the dataset resolution and at the quantization blocks\<close>

lemma setup_invariant:
  "case at_dataset_resolution ev of
     Inl (e, tr) \<Rightarrow> (\<forall>x\<in>set tr. \<not> loads_dataset x \<and> \<not> applies_quantization x)
   | Inr s \<Rightarrow> (\<forall>x\<in>set (trace s). \<not> loads_dataset x \<and> \<not> applies_quantization x)
             \<and> quant_args s = quant_args (parse_args ev)
             \<and> model_args s = model_args (parse_args ev)
             \<and> training_args s = training_args (parse_args ev)
             \<and> dataset_name_or_path (data_args s)
                 = dataset_name_or_path (data_args (parse_args ev))"
proof -
  define s0 where "s0 = parse_args ev"
  let ?P = "\<lambda>a::st. (\<forall>x\<in>set (trace a). \<not> loads_dataset x \<and> \<not> applies_quantization x)
             \<and> quant_args a = quant_args s0 \<and> model_args a = model_args s0
             \<and> training_args a = training_args s0
             \<and> dataset_name_or_path (data_args a) = dataset_name_or_path (data_args s0)"
  let ?G = "\<lambda>x::error \<times> event list.
              \<forall>y\<in>set (snd x). \<not> loads_dataset y \<and> \<not> applies_quantization y"
  have "case run_steps (setup_steps ev) s0 of Inl x \<Rightarrow> ?G x | Inr b \<Rightarrow> ?P b"
  proof (rule run_steps_invariant [where P = ?P and G = ?G])
    fix f :: "st \<Rightarrow> st result" and a :: st
    assume f: "f \<in> set (setup_steps ev)" and a: "?P a"
    from setup_effect [OF f, of a] a show "case f a of Inl x \<Rightarrow> ?G x | Inr b \<Rightarrow> ?P b"
      by (auto split: sum.splits)
  qed (simp add: s0_def)
  then show ?thesis
    unfolding at_dataset_resolution_def s0_def by (auto split: sum.splits)
qed

lemma quantization_invariant:
  "case at_quantization ev of
     Inl x \<Rightarrow> True
   | Inr s \<Rightarrow> (\<forall>x\<in>set (trace s). \<not> applies_quantization x)
             \<and> quant_args s = quant_args (parse_args ev)"
proof -
  define s0 where "s0 = parse_args ev"
  let ?P = "\<lambda>a::st. (\<forall>x\<in>set (trace a). \<not> applies_quantization x)
             \<and> quant_args a = quant_args s0"
  let ?G = "\<lambda>x::error \<times> event list. True"
  have "case run_steps (setup_steps ev @ dataset_steps ev @ [create_trainer]) s0
          of Inl x \<Rightarrow> ?G x | Inr b \<Rightarrow> ?P b"
  proof (rule run_steps_invariant [where P = ?P and G = ?G])
    fix f :: "st \<Rightarrow> st result" and a :: st
    assume f: "f \<in> set (setup_steps ev @ dataset_steps ev @ [create_trainer])"
      and a: "?P a"
    from f consider "f \<in> set (setup_steps ev)"
      | "f \<in> set (dataset_steps ev @ [create_trainer])"
      by auto
    then show "case f a of Inl x \<Rightarrow> ?G x | Inr b \<Rightarrow> ?P b"
    proof cases
      case 1
      from setup_effect [OF 1, of a] a show ?thesis
        by (auto split: sum.splits)
    next
      case 2
      from dataset_effect [OF 2, of a] a show ?thesis
        by (auto split: sum.splits)
    qed
  qed (simp add: s0_def)
  then show ?thesis
    unfolding at_quantization_def s0_def by (auto split: sum.splits)
qed

subsection \<open>Missing dataset path\<close>

text \<open>
  C2, as amended. With \<open>data_args.dataset_name_or_path\<close> \<open>None\<close> in the parsed
  configuration, \<open>main\<close> always ends in a raise and has loaded no dataset by then.
  Whenever the steps before the dataset resolution complete (the flag, dtype, pipeline
  and flash-mask checks pass), the raise is the \<open>ValueError\<close> naming the missing
  dataset path, and it comes at once: the trace at the raise is the trace on arrival.
\<close>

theorem missing_dataset_raises:
  assumes none: "dataset_name_or_path (data_args (parse_args ev)) = None"
  shows "(\<exists>e tr. main ev = Inl (e, tr) \<and> (\<forall>x\<in>set tr. \<not> loads_dataset x))
       \<and> (\<forall>s. at_dataset_resolution ev = Inr s \<longrightarrow>
              main ev = Inl (ValueError no_dataset_msg, trace s))"
proof (cases "at_dataset_resolution ev")
  case (Inl x)
  with setup_invariant [of ev] show ?thesis
    by (cases x) (simp add: main_split_dataset)
next
  case (Inr s)
  with setup_invariant [of ev] none
  have s: "dataset_name_or_path (data_args s) = None"
    and tr: "\<forall>x\<in>set (trace s). \<not> loads_dataset x"
    by simp_all
  have "main ev = Inl (ValueError no_dataset_msg, trace s)"
    using s by (simp add: main_split_dataset Inr dataset_steps_def load_datasets_def raise_def)
  with tr Inr show ?thesis by simp
qed

theorem missing_dataset_raises_witness:
  "\<exists>tr. main (env_with (args0\<lparr>parsed_data := (parsed_data args0)\<lparr>dataset_name_or_path := None\<rparr>\<rparr>)
                 llama_model [])
         = Inl (ValueError no_dataset_msg, tr)"
proof -
  let ?ev = "env_with (args0\<lparr>parsed_data := (parsed_data args0)\<lparr>dataset_name_or_path := None\<rparr>\<rparr>)
               llama_model []"
  have none: "dataset_name_or_path (data_args (parse_args ?ev)) = None"
    by (simp add: example_defs aux_defs)
  have "\<exists>s. at_dataset_resolution ?ev = Inr s"
    by (simp add: run_defs)
  with missing_dataset_raises [OF none] show ?thesis by auto
qed

text \<open>
  As first stated, for every configuration with the path missing, the claim fails where
  an earlier check raises something else: with \<open>flash_mask\<close> set and a model class
  outside the support list, \<open>main\<close> raises \<open>NotImplementedError\<close> at line 169.
\<close>

theorem missing_dataset_counterexample:
  "dataset_name_or_path
     (data_args (parse_args
        (env_with (args0\<lparr>parsed_model := (parsed_model args0)\<lparr>flash_mask := True\<rparr>,
                         parsed_data := (parsed_data args0)\<lparr>dataset_name_or_path := None\<rparr>\<rparr>)
           other_model []))) = None
   \<and> main (env_with (args0\<lparr>parsed_model := (parsed_model args0)\<lparr>flash_mask := True\<rparr>,
                          parsed_data := (parsed_data args0)\<lparr>dataset_name_or_path := None\<rparr>\<rparr>)
             other_model [])
     = Inl (NotImplementedError flash_mask_msg,
            [Parse JsonFileAndCmdLines parser_groups,
             PrintConfig ModelArgument, PrintConfig DataArgument,
             PrintConfig QuantArgument, PrintConfig GenerateArgument,
             SetDevice, ConfigFromPretrained ''float32'',
             ModelFromPretrained AutoModelForCausalLM])"
  by (simp add: run_defs)

subsection \<open>Single-file layout without a calibration file\<close>

text \<open>
  C10, as amended. Whenever execution arrives at the dataset resolution with a dataset
  path under which one of \<open>train.json\<close>, \<open>dev.json\<close>, \<open>quant.json\<close> exists but
  neither \<open>quant.json\<close> nor \<open>train.json\<close> does, \<open>main\<close> raises the
  \<open>ValueError\<close> that a quant strategy requires \<open>quant.json\<close> or \<open>train.json\<close>,
  whatever the quantization flags are; the only calls made on the way are the loads of
  \<open>train.json\<close> under \<open>do_qat\<close> and of \<open>dev.json\<close> under \<open>do_eval\<close>.
\<close>

theorem single_file_layout_needs_calibration_file:
  assumes reach: "at_dataset_resolution ev = Inr s"
    and path: "dataset_name_or_path (data_args s) = Some p"
    and layout: "single_file_layout ev p"
    and no_quant: "\<not> path_exists ev (os_path_join p [''quant.json''])"
    and no_train: "\<not> path_exists ev (os_path_join p [''train.json''])"
  shows "main ev =
           Inl (ValueError (quant_json_msg p),
                trace s
                @ (if do_qat (quant_args s)
                   then [LoadDataset (JsonFile (os_path_join p [''train.json'']))] else [])
                @ (if do_eval (training_args s)
                   then [LoadDataset (JsonFile (os_path_join p [''dev.json'']))] else []))"
  using path layout no_quant no_train
  by (simp add: main_split_dataset reach dataset_steps_def load_datasets_def raise_def)

theorem single_file_layout_needs_calibration_file_witness:
  "main (env_with (args0\<lparr>parsed_training := (parsed_training args0)\<lparr>do_eval := True\<rparr>\<rparr>)
           llama_model [''data/dev.json''])
     = Inl (ValueError (quant_json_msg ''data''),
            [Parse JsonFileAndCmdLines parser_groups,
             PrintConfig ModelArgument, PrintConfig DataArgument,
             PrintConfig QuantArgument, PrintConfig GenerateArgument,
             SetDevice, ConfigFromPretrained ''float32'',
             ModelFromPretrained AutoModelForCausalLM,
             TokenizerFromPretrained, InitChatTemplate,
             LoadDataset (JsonFile ''data/dev.json'')])"
proof -
  let ?ev = "env_with (args0\<lparr>parsed_training := (parsed_training args0)\<lparr>do_eval := True\<rparr>\<rparr>)
               llama_model [''data/dev.json'']"
  obtain s where reach: "at_dataset_resolution ?ev = Inr s"
    and path: "dataset_name_or_path (data_args s) = Some ''data''"
    and flags: "\<not> do_qat (quant_args s)" "do_eval (training_args s)"
    and tr: "trace s = [Parse JsonFileAndCmdLines parser_groups,
             PrintConfig ModelArgument, PrintConfig DataArgument,
             PrintConfig QuantArgument, PrintConfig GenerateArgument,
             SetDevice, ConfigFromPretrained ''float32'',
             ModelFromPretrained AutoModelForCausalLM,
             TokenizerFromPretrained, InitChatTemplate]"
    by (simp add: run_defs)
  have layout: "single_file_layout ?ev ''data''"
    and no_quant: "\<not> path_exists ?ev (os_path_join ''data'' [''quant.json''])"
    and no_train: "\<not> path_exists ?ev (os_path_join ''data'' [''train.json''])"
    and dev: "os_path_join ''data'' [''dev.json''] = ''data/dev.json''"
    by (simp_all add: example_defs aux_defs)
  from single_file_layout_needs_calibration_file [OF reach path layout no_quant no_train]
  show ?thesis using flags tr dev by simp
qed

text \<open>
  As first stated, for every run in that layout, the claim fails where an earlier check
  raises: with \<open>flash_mask\<close> set and a model class outside the support list the
  dataset resolution is never reached.
\<close>

theorem single_file_layout_counterexample:
  "single_file_layout
     (env_with (args0\<lparr>parsed_model := (parsed_model args0)\<lparr>flash_mask := True\<rparr>\<rparr>)
        other_model [''data/dev.json'']) ''data''
   \<and> \<not> path_exists
         (env_with (args0\<lparr>parsed_model := (parsed_model args0)\<lparr>flash_mask := True\<rparr>\<rparr>)
            other_model [''data/dev.json'']) ''data/quant.json''
   \<and> \<not> path_exists
         (env_with (args0\<lparr>parsed_model := (parsed_model args0)\<lparr>flash_mask := True\<rparr>\<rparr>)
            other_model [''data/dev.json'']) ''data/train.json''
   \<and> main (env_with (args0\<lparr>parsed_model := (parsed_model args0)\<lparr>flash_mask := True\<rparr>\<rparr>)
             other_model [''data/dev.json''])
     = Inl (NotImplementedError flash_mask_msg,
            [Parse JsonFileAndCmdLines parser_groups,
             PrintConfig ModelArgument, PrintConfig DataArgument,
             PrintConfig QuantArgument, PrintConfig GenerateArgument,
             SetDevice, ConfigFromPretrained ''float32'',
             ModelFromPretrained AutoModelForCausalLM])"
  by (simp add: run_defs)

subsection \<open>PTQ and GPTQ on a LoRA model\<close>

text \<open>
  C3, as amended. Whenever execution arrives at the quantization blocks (every earlier
  step completes) with \<open>do_ptq\<close> or \<open>do_gptq\<close> set and the model an instance of
  \<open>LoRAModel\<close>, \<open>main\<close> raises \<open>NotImplementedError\<close> there, and no quantization
  call (QAT model creation, shift, smooth, auto-clip, PTQ, GPTQ, loading a quantized model)
  has been made by then. When the model is not a \<open>LoRAModel\<close>, neither the PTQ block
  nor the GPTQ block raises.
\<close>

theorem lora_model_rejected:
  assumes reach: "at_quantization ev = Inr s"
    and flag: "do_ptq (quant_args s) \<or> do_gptq (quant_args s)"
  shows "(isinstance (model s) LoRAModel \<longrightarrow>
            main ev = Inl (NotImplementedError lora_msg, trace s)
            \<and> (\<forall>x\<in>set (trace s). \<not> applies_quantization x))
       \<and> (\<not> isinstance (model s) LoRAModel \<longrightarrow>
            (\<forall>t. model t = model s \<longrightarrow>
                 (\<exists>t'. run_ptq t = Inr t') \<and> (\<exists>t'. run_gptq t = Inr t')))"
proof -
  from quantization_invariant [of ev] reach
  have tr: "\<forall>x\<in>set (trace s). \<not> applies_quantization x"
    and q: "quant_args s = quant_args (parse_args ev)"
    by simp_all
  have "\<not> 1 < py_sum [do_ptq (quant_args (parse_args ev)),
                       do_qat (quant_args (parse_args ev)),
                       do_gptq (quant_args (parse_args ev))]"
  proof
    assume "1 < py_sum [do_ptq (quant_args (parse_args ev)),
                        do_qat (quant_args (parse_args ev)),
                        do_gptq (quant_args (parse_args ev))]"
    from conflict_raises [OF this, of "dataset_steps ev @ [create_trainer]"] reach
    show False by (simp add: at_quantization_def)
  qed
  then have one: "\<not> ((do_ptq (quant_args s) \<and> do_qat (quant_args s))
                     \<or> (do_ptq (quant_args s) \<and> do_gptq (quant_args s))
                     \<or> (do_qat (quant_args s) \<and> do_gptq (quant_args s)))"
    unfolding q py_sum3 .
  have "main ev = Inl (NotImplementedError lora_msg, trace s)"
    if "isinstance (model s) LoRAModel"
    using that flag one
    by (auto simp: main_split_quantization reach quant_steps_def run_qat_def run_ptq_def
          run_gptq_def raise_def)
  moreover have "(\<exists>t'. run_ptq t = Inr t') \<and> (\<exists>t'. run_gptq t = Inr t')"
    if "\<not> isinstance (model s) LoRAModel" "model t = model s" for t
    using that by (simp add: run_ptq_def run_gptq_def)
  ultimately show ?thesis using tr by blast
qed

theorem lora_model_rejected_witness:
  "main (env_with (args0\<lparr>parsed_quant := (parsed_quant args0)\<lparr>do_ptq := True\<rparr>\<rparr>)
           lora_model [''data/quant.json''])
     = Inl (NotImplementedError lora_msg,
            [Parse JsonFileAndCmdLines parser_groups,
             PrintConfig ModelArgument, PrintConfig DataArgument,
             PrintConfig QuantArgument, PrintConfig GenerateArgument,
             SetDevice, ConfigFromPretrained ''float32'',
             ModelFromPretrained AutoModelForCausalLM,
             TokenizerFromPretrained, InitChatTemplate,
             LoadDataset (JsonFile ''data/quant.json''),
             CreateTrainer None PadTrue ComputeMetrics False])
   \<and> (\<exists>s t. at_quantization
                (env_with (args0\<lparr>parsed_quant := (parsed_quant args0)\<lparr>do_gptq := True\<rparr>\<rparr>)
                   llama_model [''data/quant.json'']) = Inr s
             \<and> run_gptq s = Inr t)"
proof -
  let ?ev = "env_with (args0\<lparr>parsed_quant := (parsed_quant args0)\<lparr>do_ptq := True\<rparr>\<rparr>)
               lora_model [''data/quant.json'']"
  let ?ev' = "env_with (args0\<lparr>parsed_quant := (parsed_quant args0)\<lparr>do_gptq := True\<rparr>\<rparr>)
               llama_model [''data/quant.json'']"
  obtain s where reach: "at_quantization ?ev = Inr s"
    and flag: "do_ptq (quant_args s)"
    and lora: "isinstance (model s) LoRAModel"
    and tr: "trace s = [Parse JsonFileAndCmdLines parser_groups,
             PrintConfig ModelArgument, PrintConfig DataArgument,
             PrintConfig QuantArgument, PrintConfig GenerateArgument,
             SetDevice, ConfigFromPretrained ''float32'',
             ModelFromPretrained AutoModelForCausalLM,
             TokenizerFromPretrained, InitChatTemplate,
             LoadDataset (JsonFile ''data/quant.json''),
             CreateTrainer None PadTrue ComputeMetrics False]"
    by (simp add: run_defs)
  obtain s' where reach': "at_quantization ?ev' = Inr s'"
    and flag': "do_gptq (quant_args s')"
    and llama: "\<not> isinstance (model s') LoRAModel"
    by (simp add: run_defs)
  from lora_model_rejected [OF reach] flag lora tr
  have "main ?ev = Inl (NotImplementedError lora_msg,
            [Parse JsonFileAndCmdLines parser_groups,
             PrintConfig ModelArgument, PrintConfig DataArgument,
             PrintConfig QuantArgument, PrintConfig GenerateArgument,
             SetDevice, ConfigFromPretrained ''float32'',
             ModelFromPretrained AutoModelForCausalLM,
             TokenizerFromPretrained, InitChatTemplate,
             LoadDataset (JsonFile ''data/quant.json''),
             CreateTrainer None PadTrue ComputeMetrics False])"
    by simp
  moreover from lora_model_rejected [OF reach'] flag' llama
  have "\<exists>t. run_gptq s' = Inr t" by simp
  ultimately show ?thesis using reach' by blast
qed

text \<open>
  As first stated, for every configuration with the flag set and a LoRA model, the claim
  fails where an earlier step raises: with the dataset path missing, \<open>main\<close> raises the
  \<open>ValueError\<close> of line 188 after the model has been built.
\<close>

theorem lora_model_counterexample:
  "do_ptq (quant_args (parse_args
      (env_with (args0\<lparr>parsed_quant := (parsed_quant args0)\<lparr>do_ptq := True\<rparr>,
                       parsed_data := (parsed_data args0)\<lparr>dataset_name_or_path := None\<rparr>\<rparr>)
         lora_model [])))
   \<and> isinstance
       (from_pretrained
          (env_with (args0\<lparr>parsed_quant := (parsed_quant args0)\<lparr>do_ptq := True\<rparr>,
                           parsed_data := (parsed_data args0)\<lparr>dataset_name_or_path := None\<rparr>\<rparr>)
             lora_model [])
          AutoModelForCausalLM)
       LoRAModel
   \<and> main (env_with (args0\<lparr>parsed_quant := (parsed_quant args0)\<lparr>do_ptq := True\<rparr>,
                          parsed_data := (parsed_data args0)\<lparr>dataset_name_or_path := None\<rparr>\<rparr>)
             lora_model [])
     = Inl (ValueError no_dataset_msg,
            [Parse JsonFileAndCmdLines parser_groups,
             PrintConfig ModelArgument, PrintConfig DataArgument,
             PrintConfig QuantArgument, PrintConfig GenerateArgument,
             SetDevice, ConfigFromPretrained ''float32'',
             ModelFromPretrained AutoModelForCausalLM,
             TokenizerFromPretrained, InitChatTemplate])"
  by (simp add: run_defs)

subsection \<open>Dataset resolution\<close>

text \<open>
  C4, as amended. For a dataset path \<open>p\<close>, the resolution tries two layouts in order.
  If \<open>train.json\<close>, \<open>dev.json\<close> or \<open>quant.json\<close> exists under \<open>p\<close>, the
  training set (under \<open>do_qat\<close>) and the evaluation set (under \<open>do_eval\<close>) are loaded
  from \<open>train.json\<close> and \<open>dev.json\<close>. Otherwise, if \<open>train\<close>, \<open>dev\<close> or
  \<open>quant\<close> exists under \<open>p\<close>, they are loaded from the \<open>*.json\<close> files that
  \<open>glob\<close> finds in \<open>train\<close> and \<open>dev\<close>. Otherwise \<open>p\<close> is a registered
  dataset name, and the calibration set is its \<open>train\<close> split when \<open>do_ptq\<close>,
  \<open>do_gptq\<close> or \<open>load_quant_model\<close> is set. In both file-system layouts the
  calibration set comes from \<open>quant.json\<close> (\<open>quant\<close>) when that exists, and from
  \<open>train.json\<close> (\<open>train\<close>) when only that exists; when neither exists the
  resolution raises a \<open>ValueError\<close>.
\<close>

theorem dataset_resolution_layouts:
  assumes path: "dataset_name_or_path (data_args s) = Some p"
  shows
    "(single_file_layout ev p
        \<and> (path_exists ev (os_path_join p [''quant.json''])
            \<or> path_exists ev (os_path_join p [''train.json''])) \<longrightarrow>
      (\<exists>s'. load_datasets ev s = Inr s'
         \<and> train_ds s' =
             (if do_qat (quant_args s)
              then Some (Load (JsonFile (os_path_join p [''train.json'']))
                           (Some (lazy (data_args s))))
              else None)
         \<and> dev_ds s' =
             (if do_eval (training_args s)
              then Some (Load (JsonFile (os_path_join p [''dev.json'']))
                           (Some (lazy (data_args s))))
              else None)
         \<and> ptq_ds s' =
             Some (Load (JsonFile (os_path_join p
                            [if path_exists ev (os_path_join p [''quant.json''])
                             then ''quant.json'' else ''train.json'']))
                     (Some (lazy (data_args s))))))
   \<and> (single_file_layout ev p
        \<and> \<not> path_exists ev (os_path_join p [''quant.json''])
        \<and> \<not> path_exists ev (os_path_join p [''train.json'']) \<longrightarrow>
      (\<exists>tr. load_datasets ev s = Inl (ValueError (quant_json_msg p), tr)))
   \<and> (\<not> single_file_layout ev p \<and> folder_layout ev p
        \<and> (path_exists ev (os_path_join p [''quant''])
            \<or> path_exists ev (os_path_join p [''train''])) \<longrightarrow>
      (\<exists>s'. load_datasets ev s = Inr s'
         \<and> train_ds s' =
             (if do_qat (quant_args s)
              then Some (Load (JsonFiles (glob ev (os_path_join p [''train'', ''*.json''])))
                           (Some (lazy (data_args s))))
              else None)
         \<and> dev_ds s' =
             (if do_eval (training_args s)
              then Some (Load (JsonFiles (glob ev (os_path_join p [''dev'', ''*.json''])))
                           (Some (lazy (data_args s))))
              else None)
         \<and> ptq_ds s' =
             Some (Load (JsonFiles (glob ev (os_path_join p
                            [if path_exists ev (os_path_join p [''quant''])
                             then ''quant'' else ''train'', ''*.json''])))
                     (Some (lazy (data_args s))))))
   \<and> (\<not> single_file_layout ev p \<and> folder_layout ev p
        \<and> \<not> path_exists ev (os_path_join p [''quant''])
        \<and> \<not> path_exists ev (os_path_join p [''train'']) \<longrightarrow>
      (\<exists>tr. load_datasets ev s = Inl (ValueError (quant_folder_msg p), tr)))
   \<and> (\<not> single_file_layout ev p \<and> \<not> folder_layout ev p \<longrightarrow>
      (\<exists>s'. load_datasets ev s = Inr s'
         \<and> train_ds s' =
             (if do_qat (quant_args s) then Some (Load (Registered p ''train'') None)
              else None)
         \<and> dev_ds s' =
             (if do_eval (training_args s) then Some (Load (Registered p ''dev'') None)
              else None)
         \<and> ptq_ds s' =
             (if do_ptq (quant_args s) \<or> do_gptq (quant_args s)
                 \<or> load_quant_model (quant_args s)
              then Some (Load (Registered p ''train'') None) else None)))"
  using path
  by (simp add: load_datasets_def load_dataset_def raise_def Let_def)

theorem dataset_resolution_layouts_witness:
  "(\<exists>s'. load_datasets env0 (parse_args env0) = Inr s'
         \<and> ptq_ds s' = Some (Load (JsonFile ''data/quant.json'') (Some False)))
   \<and> (\<exists>s'. load_datasets (env_with args0 llama_model [''data/train.json''])
              (parse_args (env_with args0 llama_model [''data/train.json''])) = Inr s'
         \<and> ptq_ds s' = Some (Load (JsonFile ''data/train.json'') (Some False)))
   \<and> (\<exists>s'. load_datasets (env_with args0 llama_model [''data/train''])
              (parse_args (env_with args0 llama_model [''data/train''])) = Inr s'
         \<and> ptq_ds s' = Some (Load (JsonFiles []) (Some False)))
   \<and> (\<exists>s'. load_datasets (env_with args0 llama_model [])
              (parse_args (env_with args0 llama_model [])) = Inr s'
         \<and> ptq_ds s' = None)"
proof -
  let ?e2 = "env_with args0 llama_model [''data/train.json'']"
  let ?e3 = "env_with args0 llama_model [''data/train'']"
  let ?e4 = "env_with args0 llama_model []"
  have p: "dataset_name_or_path (data_args (parse_args (env_with args0 m fs))) = Some ''data''"
    for m fs
    by (simp add: example_defs aux_defs)
  have p0: "dataset_name_or_path (data_args (parse_args env0)) = Some ''data''"
    unfolding env0_def by (rule p)
  have "\<exists>s'. load_datasets env0 (parse_args env0) = Inr s'
         \<and> ptq_ds s' = Some (Load (JsonFile ''data/quant.json'') (Some False))"
    using dataset_resolution_layouts [OF p0, of env0]
    by (auto simp: example_defs aux_defs)
  moreover have "\<exists>s'. load_datasets ?e2 (parse_args ?e2) = Inr s'
         \<and> ptq_ds s' = Some (Load (JsonFile ''data/train.json'') (Some False))"
    using dataset_resolution_layouts [OF p, of ?e2]
    by (auto simp: example_defs aux_defs)
  moreover have "\<exists>s'. load_datasets ?e3 (parse_args ?e3) = Inr s'
         \<and> ptq_ds s' = Some (Load (JsonFiles []) (Some False))"
    using dataset_resolution_layouts [OF p, of ?e3]
    by (auto simp: example_defs aux_defs)
  moreover have "\<exists>s'. load_datasets ?e4 (parse_args ?e4) = Inr s' \<and> ptq_ds s' = None"
    using dataset_resolution_layouts [OF p, of ?e4]
    by (auto simp: example_defs aux_defs)
  ultimately show ?thesis by blast
qed

text \<open>
  As first stated, the calibration set falls back to \<open>train.json\<close> whenever
  \<open>quant.json\<close> is missing. With only \<open>dev.json\<close> under the path the layout is
  recognised, \<open>quant.json\<close> is missing, and nothing is taken from \<open>train.json\<close>:
  \<open>main\<close> raises at line 227 with no dataset loaded.
\<close>

theorem dataset_resolution_counterexample:
  "single_file_layout (env_with args0 llama_model [''data/dev.json'']) ''data''
   \<and> \<not> path_exists (env_with args0 llama_model [''data/dev.json''])
         (os_path_join ''data'' [''quant.json''])
   \<and> main (env_with args0 llama_model [''data/dev.json''])
     = Inl (ValueError ''Quant strategy requires quant.json or train.json in data'',
            [Parse JsonFileAndCmdLines parser_groups,
             PrintConfig ModelArgument, PrintConfig DataArgument,
             PrintConfig QuantArgument, PrintConfig GenerateArgument,
             SetDevice, ConfigFromPretrained ''float32'',
             ModelFromPretrained AutoModelForCausalLM,
             TokenizerFromPretrained, InitChatTemplate])"
  by (simp add: run_defs quant_json_msg_def)

subsection \<open>Arriving at the model configuration\<close>

lemma main_split_model_config:
  "main ev = and_then (at_model_config ev)
               (run_steps (model_steps ev @ tokenizer_steps ev @ dataset_steps ev
                           @ [create_trainer] @ quant_steps @ final_steps))"
  by (simp add: main_def at_model_config_def setup_steps_def run_steps_append)

lemma and_then_done [simp]: "and_then r (run_steps []) = r"
  by (cases r) simp_all

lemma setup_device_result:
  "\<exists>s2. setup_device ev s1 = Inr s2 \<and> training_args s2 = training_args s1
        \<and> data_args s2 = data_args s1
        \<and> (\<exists>es. trace s2 = trace s1 @ es \<and> (\<forall>x\<in>set es. \<not> loads_model x))"
  by (simp add: setup_device_def Let_def)

text \<open>
  The steps up to the choice of the dtype raise only the flag-conflict error or the
  dtype error, and load nothing.
\<close>

lemma at_model_config_cases:
  obtains (conflict) tr where
      "1 < py_sum [do_ptq (quant_args (parse_args ev)), do_qat (quant_args (parse_args ev)),
                   do_gptq (quant_args (parse_args ev))]"
      "at_model_config ev = Inl (ValueError quant_conflict_msg, tr)"
      "\<forall>x\<in>set tr. \<not> loads_model x"
  | (no_dtype) tr where
      "\<not> 1 < py_sum [do_ptq (quant_args (parse_args ev)), do_qat (quant_args (parse_args ev)),
                     do_gptq (quant_args (parse_args ev))]"
      "fp16_opt_level (training_args (parse_args ev)) = ''O2''"
      "\<not> fp16 (training_args (parse_args ev))" "\<not> bf16 (training_args (parse_args ev))"
      "at_model_config ev = Inl (ValueError dtype_msg, tr)"
      "\<forall>x\<in>set tr. \<not> loads_model x"
  | (chosen) s where
      "\<not> 1 < py_sum [do_ptq (quant_args (parse_args ev)), do_qat (quant_args (parse_args ev)),
                     do_gptq (quant_args (parse_args ev))]"
      "at_model_config ev = Inr s"
      "training_args s = training_args (parse_args ev)"
      "data_args s = data_args (parse_args ev)"
      "\<forall>x\<in>set (trace s). \<not> loads_model x"
      "dtype s = (if fp16_opt_level (training_args s) = ''O2''
                  then (if fp16 (training_args s) then ''float16'' else ''bfloat16'')
                  else ''float32'')"
      "fp16_opt_level (training_args s) = ''O2'' \<longrightarrow> fp16 (training_args s) \<or> bf16 (training_args s)"
proof -
  let ?s1 = "emit [PrintConfig ModelArgument, PrintConfig DataArgument,
                   PrintConfig QuantArgument, PrintConfig GenerateArgument] (parse_args ev)"
  show ?thesis
  proof (cases "1 < py_sum [do_ptq (quant_args (parse_args ev)),
                            do_qat (quant_args (parse_args ev)),
                            do_gptq (quant_args (parse_args ev))]")
    case True
    then have "at_model_config ev = Inl (ValueError quant_conflict_msg, trace ?s1)"
      by (simp add: at_model_config_def dtype_steps_def print_config_def
            check_quant_flags_def raise_def)
    with True show ?thesis by (intro conflict [of "trace ?s1"]) simp_all
  next
    case False
    from setup_device_result [of ev ?s1]
    obtain s2 where s2: "setup_device ev ?s1 = Inr s2"
      and f2: "training_args s2 = training_args (parse_args ev)"
        "data_args s2 = data_args (parse_args ev)"
        "\<forall>x\<in>set (trace s2). \<not> loads_model x"
      by auto
    from False s2 have reach: "at_model_config ev = select_dtype s2"
      by (simp add: at_model_config_def dtype_steps_def print_config_def
            check_quant_flags_def)
    show ?thesis
    proof (cases "fp16_opt_level (training_args s2) = ''O2''
                  \<and> \<not> fp16 (training_args s2) \<and> \<not> bf16 (training_args s2)")
      case True
      then have "at_model_config ev = Inl (ValueError dtype_msg, trace s2)"
        by (simp add: reach select_dtype_def raise_def)
      with True False f2 show ?thesis by (intro no_dtype [of "trace s2"]) simp_all
    next
      case no: False
      let ?d = "if fp16_opt_level (training_args s2) = ''O2''
                then (if fp16 (training_args s2) then ''float16'' else ''bfloat16'')
                else ''float32''"
      from no have "at_model_config ev = Inr (s2\<lparr>dtype := ?d\<rparr>)"
        by (auto simp: reach select_dtype_def)
      with no False f2 show ?thesis by (intro chosen [of "s2\<lparr>dtype := ?d\<rparr>"]) auto
    qed
  qed
qed

text \<open>Once the dtype is chosen it is the one passed to \<open>AutoConfig.from_pretrained\<close>.\<close>

lemma config_event:
  assumes "at_model_config ev = Inr s"
  shows "ConfigFromPretrained (dtype s) \<in> set (trace_of (main ev))"
proof -
  let ?rest = "[select_model_class, construct_model ev] @ tokenizer_steps ev @ dataset_steps ev
               @ [create_trainer] @ quant_steps @ final_steps"
  let ?s = "emit [ConfigFromPretrained (dtype s)] s"
  have "main ev = run_steps ?rest ?s"
    by (simp add: main_split_model_config assms model_steps_def build_model_config_def)
  moreover have "\<exists>es. trace_of (run_steps ?rest ?s) = trace ?s @ es"
    by (rule run_trace_extends [where ev = ev])
      (auto simp: setup_steps_def model_steps_def)
  ultimately show ?thesis by auto
qed

subsection \<open>Choice of the dtype\<close>

text \<open>
  C5, as amended. For every configuration with at most one of \<open>do_ptq\<close>, \<open>do_qat\<close>,
  \<open>do_gptq\<close> set: with \<open>fp16_opt_level\<close> \<open>O2\<close> and neither \<open>fp16\<close> nor
  \<open>bf16\<close> set, \<open>main\<close> raises the \<open>ValueError\<close> asking for a dtype, before any
  model configuration is loaded; otherwise the dtype is \<open>float16\<close> under \<open>O2\<close>
  with \<open>fp16\<close>, \<open>bfloat16\<close> under \<open>O2\<close> with \<open>bf16\<close> and without \<open>fp16\<close>,
  and \<open>float32\<close> whenever the level is not \<open>O2\<close>, and that dtype is the one
  passed to \<open>AutoConfig.from_pretrained\<close>.
\<close>

theorem dtype_selection:
  assumes q: "q = quant_args (parse_args ev)"
    and ta: "ta = training_args (parse_args ev)"
    and one: "\<not> ((do_ptq q \<and> do_qat q) \<or> (do_ptq q \<and> do_gptq q) \<or> (do_qat q \<and> do_gptq q))"
  shows "(fp16_opt_level ta = ''O2'' \<and> \<not> fp16 ta \<and> \<not> bf16 ta \<longrightarrow>
            (\<exists>tr. main ev = Inl (ValueError dtype_msg, tr)
                  \<and> (\<forall>x\<in>set tr. \<not> loads_model x)))
       \<and> (fp16_opt_level ta = ''O2'' \<and> fp16 ta \<longrightarrow>
            (\<exists>s. at_model_config ev = Inr s \<and> dtype s = ''float16'')
            \<and> ConfigFromPretrained ''float16'' \<in> set (trace_of (main ev)))
       \<and> (fp16_opt_level ta = ''O2'' \<and> \<not> fp16 ta \<and> bf16 ta \<longrightarrow>
            (\<exists>s. at_model_config ev = Inr s \<and> dtype s = ''bfloat16'')
            \<and> ConfigFromPretrained ''bfloat16'' \<in> set (trace_of (main ev)))
       \<and> (fp16_opt_level ta \<noteq> ''O2'' \<longrightarrow>
            (\<exists>s. at_model_config ev = Inr s \<and> dtype s = ''float32'')
            \<and> ConfigFromPretrained ''float32'' \<in> set (trace_of (main ev)))"
proof -
  from one have ok: "\<not> 1 < py_sum [do_ptq (quant_args (parse_args ev)),
                                   do_qat (quant_args (parse_args ev)),
                                   do_gptq (quant_args (parse_args ev))]"
    unfolding q py_sum3 by blast
  show ?thesis
  proof (cases ev rule: at_model_config_cases)
    case (conflict tr)
    with ok show ?thesis by simp
  next
    case (no_dtype tr)
    then show ?thesis by (simp add: ta main_split_model_config)
  next
    case (chosen s)
    from config_event [OF chosen(2)] chosen show ?thesis
      by (auto simp: ta)
  qed
qed

theorem dtype_selection_witness:
  "(\<exists>tr. main (env_with (args0\<lparr>parsed_training :=
                            (parsed_training args0)\<lparr>fp16_opt_level := ''O2''\<rparr>\<rparr>)
                  llama_model [''data/quant.json''])
          = Inl (ValueError dtype_msg, tr))
   \<and> ConfigFromPretrained ''float16''
       \<in> set (trace_of (main (env_with (args0\<lparr>parsed_training :=
                            (parsed_training args0)\<lparr>fp16_opt_level := ''O2'', fp16 := True\<rparr>\<rparr>)
                  llama_model [''data/quant.json''])))
   \<and> ConfigFromPretrained ''bfloat16''
       \<in> set (trace_of (main (env_with (args0\<lparr>parsed_training :=
                            (parsed_training args0)\<lparr>fp16_opt_level := ''O2'', bf16 := True\<rparr>\<rparr>)
                  llama_model [''data/quant.json''])))
   \<and> ConfigFromPretrained ''float32'' \<in> set (trace_of (main env0))"
proof -
  let ?e1 = "env_with (args0\<lparr>parsed_training :=
                            (parsed_training args0)\<lparr>fp16_opt_level := ''O2''\<rparr>\<rparr>)
                  llama_model [''data/quant.json'']"
  let ?e2 = "env_with (args0\<lparr>parsed_training :=
                            (parsed_training args0)\<lparr>fp16_opt_level := ''O2'', fp16 := True\<rparr>\<rparr>)
                  llama_model [''data/quant.json'']"
  let ?e3 = "env_with (args0\<lparr>parsed_training :=
                            (parsed_training args0)\<lparr>fp16_opt_level := ''O2'', bf16 := True\<rparr>\<rparr>)
                  llama_model [''data/quant.json'']"
  have "\<exists>tr. main ?e1 = Inl (ValueError dtype_msg, tr)"
    using dtype_selection [OF refl refl, of ?e1]
    by (auto simp: example_defs aux_defs)
  moreover have "ConfigFromPretrained ''float16'' \<in> set (trace_of (main ?e2))"
    using dtype_selection [OF refl refl, of ?e2]
    by (simp add: example_defs parse_args_def Let_def)
  moreover have "ConfigFromPretrained ''bfloat16'' \<in> set (trace_of (main ?e3))"
    using dtype_selection [OF refl refl, of ?e3]
    by (simp add: example_defs parse_args_def Let_def)
  moreover have "ConfigFromPretrained ''float32'' \<in> set (trace_of (main env0))"
    using dtype_selection [OF refl refl, of env0]
    by (simp add: example_defs parse_args_def Let_def)
  ultimately show ?thesis by blast
qed

text \<open>
  As first stated the claim fails in two places. With two quantization flags set, level
  \<open>O2\<close> and no dtype flag, \<open>main\<close> raises the flag-conflict error of line 81, which
  does not ask for a dtype. With \<open>O2\<close> and both \<open>fp16\<close> and \<open>bf16\<close> set, the
  \<open>if\<close> of line 104 wins over the \<open>elif\<close> of line 106 and the dtype is
  \<open>float16\<close>, not \<open>bfloat16\<close>.
\<close>

theorem dtype_selection_counterexample:
  "main (env_with (args0\<lparr>parsed_quant := (parsed_quant args0)\<lparr>do_ptq := True, do_qat := True\<rparr>,
                        parsed_training :=
                          (parsed_training args0)\<lparr>fp16_opt_level := ''O2''\<rparr>\<rparr>)
           llama_model [''data/quant.json''])
     = Inl (ValueError
              ''--do_ptq, --do_gptq and --do_qat cannot work at the same time. Please choose only one at a time'',
            [Parse JsonFileAndCmdLines parser_groups,
             PrintConfig ModelArgument, PrintConfig DataArgument,
             PrintConfig QuantArgument, PrintConfig GenerateArgument])
   \<and> bf16 (training_args (parse_args
        (env_with (args0\<lparr>parsed_training :=
                     (parsed_training args0)\<lparr>fp16_opt_level := ''O2'', fp16 := True,
                                               bf16 := True\<rparr>\<rparr>)
           llama_model [''data/quant.json''])))
   \<and> map_sum fst dtype
        (at_model_config
           (env_with (args0\<lparr>parsed_training :=
                        (parsed_training args0)\<lparr>fp16_opt_level := ''O2'', fp16 := True,
                                                  bf16 := True\<rparr>\<rparr>)
              llama_model [''data/quant.json'']))
      = Inr ''float16''"
  by (simp add: run_defs quant_conflict_msg_def)

subsection \<open>After the model is built\<close>

lemma tokenizer_effect:
  assumes "f \<in> set (tokenizer_steps ev)"
  shows "case f a of
           Inl (e, tr) \<Rightarrow> (\<exists>es. tr = trace a @ es \<and> (\<forall>x\<in>set es. \<not> loads_model x))
         | Inr b \<Rightarrow> (\<exists>es. trace b = trace a @ es \<and> (\<forall>x\<in>set es. \<not> loads_model x))
                   \<and> model_class b = model_class a"
  using assms unfolding tokenizer_steps_def
  apply simp
  apply (elim disjE)
     apply (simp_all add: setup_step_defs)
  done

lemma no_model_load_after:
  assumes a: "\<forall>x\<in>set (trace a). \<not> constructs_with c x"
  shows "\<forall>x\<in>set (trace_of (run_steps (tokenizer_steps ev @ dataset_steps ev @ [create_trainer]
                                         @ quant_steps @ final_steps) a)).
           \<not> constructs_with c x"
proof -
  let ?P = "\<lambda>a::st. \<forall>x\<in>set (trace a). \<not> constructs_with c x"
  let ?G = "\<lambda>x::error \<times> event list. \<forall>y\<in>set (snd x). \<not> constructs_with c y"
  have "case run_steps (tokenizer_steps ev @ dataset_steps ev @ [create_trainer]
                        @ quant_steps @ final_steps) a
          of Inl x \<Rightarrow> ?G x | Inr b \<Rightarrow> ?P b"
  proof (rule run_steps_invariant [where P = ?P and G = ?G])
    fix f :: "st \<Rightarrow> st result" and a :: st
    assume f: "f \<in> set (tokenizer_steps ev @ dataset_steps ev @ [create_trainer]
                          @ quant_steps @ final_steps)"
      and a: "?P a"
    from f consider "f \<in> set (tokenizer_steps ev)"
      | "f \<in> set (dataset_steps ev @ [create_trainer])"
      | "f \<in> set (quant_steps @ final_steps)"
      by auto
    then show "case f a of Inl x \<Rightarrow> ?G x | Inr b \<Rightarrow> ?P b"
    proof cases
      case 1
      from tokenizer_effect [OF 1, of a] a show ?thesis
        by (auto split: sum.splits dest: constructs_with_loads_model)
    next
      case 2
      from dataset_effect [OF 2, of a] a show ?thesis
        by (auto split: sum.splits dest: constructs_with_loads_model)
    next
      case 3
      from final_effect [OF 3, of a] a show ?thesis
        by (auto split: sum.splits dest: constructs_with_loads_model)
    qed
  qed (rule a)
  then show ?thesis by (auto simp: trace_of_def split: sum.splits)
qed

lemma construct_model_result:
  "\<exists>s3 e. construct_model ev s2 = Inr s3 \<and> trace s3 = trace s2 @ [e]
          \<and> constructs_with (model_class s2) e
          \<and> (\<forall>c. c \<noteq> model_class s2 \<longrightarrow> \<not> constructs_with c e)"
  by (auto simp: construct_model_def)

lemma main_split_model_class:
  assumes "at_model_config ev = Inr s"
  shows "main ev =
           and_then (select_model_class (emit [ConfigFromPretrained (dtype s)] s))
             (run_steps ([construct_model ev] @ tokenizer_steps ev @ dataset_steps ev
                         @ [create_trainer] @ quant_steps @ final_steps))"
  by (simp add: main_split_model_config assms model_steps_def build_model_config_def)

subsection \<open>Pipeline parallel mode\<close>

lemma at_flash_mask_split:
  "at_flash_mask ev = and_then (at_model_config ev) (run_steps (model_steps ev))"
  by (simp add: at_flash_mask_def at_model_config_def run_steps_append)

text \<open>
  C6. With \<open>pipeline_parallel_degree\<close> above 1: when \<open>eval_with_do_generation\<close> and
  \<open>do_eval\<close> are both set, \<open>main\<close> raises a \<open>ValueError\<close>, which is the one of
  line 149 unless the flag check or the dtype check raised theirs before. When they are
  not both set, the check passes: the model class becomes \<open>AutoModelForCausalLMPipe\<close>,
  and once execution has arrived at the check (the flag and dtype checks passed) the
  model is the one that class builds, \<open>from_pretrained\<close> or \<open>from_config\<close>, the
  call is in the trace of \<open>main\<close>, and execution arrives at line 163 with that model.
  In neither case is a model ever built with \<open>AutoModelForCausalLM\<close>.
\<close>

theorem pipeline_model_class:
  assumes ta: "ta = training_args (parse_args ev)"
    and da: "da = data_args (parse_args ev)"
    and pp: "1 < pipeline_parallel_degree ta"
  shows "(eval_with_do_generation da \<and> do_eval ta \<longrightarrow>
            (\<exists>m tr. main ev = Inl (ValueError m, tr)
                    \<and> (m = quant_conflict_msg \<or> m = dtype_msg \<or> m = pipeline_msg)
                    \<and> (at_model_config ev \<noteq> Inl (ValueError m, tr) \<longrightarrow> m = pipeline_msg)))
       \<and> (\<not> (eval_with_do_generation da \<and> do_eval ta) \<longrightarrow>
            (\<forall>s. training_args s = ta \<and> data_args s = da \<longrightarrow>
                 select_model_class s = Inr (s\<lparr>model_class := AutoModelForCausalLMPipe\<rparr>))
            \<and> (\<forall>s. at_model_config ev = Inr s \<longrightarrow>
                 (\<exists>t. at_flash_mask ev = Inr t
                     \<and> model_class t = AutoModelForCausalLMPipe
                     \<and> model t =
                         (if continue_training (model_args s)
                             \<and> \<not> autotuner_benchmark (training_args s)
                          then from_pretrained ev AutoModelForCausalLMPipe
                          else from_config ev AutoModelForCausalLMPipe)
                     \<and> trace t =
                         trace s
                         @ [ConfigFromPretrained (dtype s),
                            if continue_training (model_args s)
                               \<and> \<not> autotuner_benchmark (training_args s)
                            then ModelFromPretrained AutoModelForCausalLMPipe
                            else ModelFromConfig AutoModelForCausalLMPipe (dtype s)])
                 \<and> (if continue_training (model_args s)
                        \<and> \<not> autotuner_benchmark (training_args s)
                     then ModelFromPretrained AutoModelForCausalLMPipe
                     else ModelFromConfig AutoModelForCausalLMPipe (dtype s))
                    \<in> set (trace_of (main ev))))
       \<and> (\<forall>x\<in>set (trace_of (main ev)). \<not> constructs_with AutoModelForCausalLM x)"
proof (cases ev rule: at_model_config_cases)
  case (conflict tr)
  then have "main ev = Inl (ValueError quant_conflict_msg, tr)"
    by (simp add: main_split_model_config)
  with conflict pp constructs_with_loads_model [of AutoModelForCausalLM] show ?thesis
    by (auto simp: select_model_class_def trace_of_def ta da)
next
  case (no_dtype tr)
  then have "main ev = Inl (ValueError dtype_msg, tr)"
    by (simp add: main_split_model_config)
  with no_dtype pp constructs_with_loads_model [of AutoModelForCausalLM] show ?thesis
    by (auto simp: select_model_class_def trace_of_def ta da)
next
  case (chosen s)
  let ?s1 = "emit [ConfigFromPretrained (dtype s)] s"
  have none: "\<forall>x\<in>set (trace ?s1). \<not> constructs_with AutoModelForCausalLM x"
    using chosen(5) constructs_with_loads_model [of AutoModelForCausalLM] by auto
  have step: "\<forall>t. training_args t = ta \<and> data_args t = da \<longrightarrow>
                  \<not> (eval_with_do_generation da \<and> do_eval ta) \<longrightarrow>
                  select_model_class t = Inr (t\<lparr>model_class := AutoModelForCausalLMPipe\<rparr>)"
    using pp by (auto simp: select_model_class_def)
  show ?thesis
  proof (cases "eval_with_do_generation da \<and> do_eval ta")
    case True
    with pp chosen have "main ev = Inl (ValueError pipeline_msg, trace ?s1)"
      by (simp add: main_split_model_class [OF chosen(2)] select_model_class_def raise_def
            ta da)
    with True none show ?thesis by (auto simp: trace_of_def)
  next
    case False
    let ?s2 = "?s1\<lparr>model_class := AutoModelForCausalLMPipe\<rparr>"
    let ?pre = "continue_training (model_args s) \<and> \<not> autotuner_benchmark (training_args s)"
    let ?e = "if ?pre then ModelFromPretrained AutoModelForCausalLMPipe
              else ModelFromConfig AutoModelForCausalLMPipe (dtype s)"
    from False pp chosen
    have sel: "select_model_class ?s1 = Inr ?s2"
      by (auto simp: select_model_class_def ta da)
    obtain s3 where con: "construct_model ev ?s2 = Inr s3"
      and cls3: "model_class s3 = AutoModelForCausalLMPipe"
      and mod3: "model s3 = (if ?pre then from_pretrained ev AutoModelForCausalLMPipe
                             else from_config ev AutoModelForCausalLMPipe)"
      and tr3: "trace s3 = trace s @ [ConfigFromPretrained (dtype s), ?e]"
      by (cases ?pre) (simp_all add: construct_model_def)
    from tr3 none
    have no3: "\<forall>x\<in>set (trace s3). \<not> constructs_with AutoModelForCausalLM x"
      by auto
    have flash: "at_flash_mask ev = Inr s3"
      by (simp add: at_flash_mask_split chosen(2) model_steps_def build_model_config_def
            sel con)
    have run: "main ev = run_steps (tokenizer_steps ev @ dataset_steps ev @ [create_trainer]
                                    @ quant_steps @ final_steps) s3"
      by (simp add: main_split_model_class [OF chosen(2)] sel con)
    with no_model_load_after [OF no3, of ev]
    have never: "\<forall>x\<in>set (trace_of (main ev)). \<not> constructs_with AutoModelForCausalLM x"
      by simp
    have "\<exists>es. trace_of (main ev) = trace s3 @ es"
      unfolding run
      by (rule run_trace_extends [where ev = ev]) (auto simp: setup_steps_def)
    with tr3 have built: "?e \<in> set (trace_of (main ev))"
      by auto
    have "\<forall>s'. at_model_config ev = Inr s' \<longrightarrow>
            (\<exists>t. at_flash_mask ev = Inr t
                \<and> model_class t = AutoModelForCausalLMPipe
                \<and> model t =
                    (if continue_training (model_args s')
                        \<and> \<not> autotuner_benchmark (training_args s')
                     then from_pretrained ev AutoModelForCausalLMPipe
                     else from_config ev AutoModelForCausalLMPipe)
                \<and> trace t =
                    trace s'
                    @ [ConfigFromPretrained (dtype s'),
                       if continue_training (model_args s')
                          \<and> \<not> autotuner_benchmark (training_args s')
                       then ModelFromPretrained AutoModelForCausalLMPipe
                       else ModelFromConfig AutoModelForCausalLMPipe (dtype s')])
            \<and> (if continue_training (model_args s')
                   \<and> \<not> autotuner_benchmark (training_args s')
                then ModelFromPretrained AutoModelForCausalLMPipe
                else ModelFromConfig AutoModelForCausalLMPipe (dtype s'))
               \<in> set (trace_of (main ev))"
      using flash cls3 mod3 tr3 built chosen(2) by simp
    with False step never show ?thesis by blast
  qed
qed

theorem pipeline_model_class_witness:
  "(\<exists>tr. main (env_with (args0\<lparr>parsed_data :=
                              (parsed_data args0)\<lparr>eval_with_do_generation := True\<rparr>,
                            parsed_training :=
                              (parsed_training args0)\<lparr>pipeline_parallel_degree := 2,
                                                        do_eval := True\<rparr>\<rparr>)
                  llama_model [''data/quant.json''])
          = Inl (ValueError pipeline_msg, tr))
   \<and> ModelFromPretrained AutoModelForCausalLM
       \<notin> set (trace_of (main (env_with (args0\<lparr>parsed_training :=
                              (parsed_training args0)\<lparr>pipeline_parallel_degree := 2\<rparr>\<rparr>)
                  llama_model [''data/quant.json''])))
   \<and> ModelFromPretrained AutoModelForCausalLMPipe
       \<in> set (trace_of (main (env_with (args0\<lparr>parsed_training :=
                              (parsed_training args0)\<lparr>pipeline_parallel_degree := 2\<rparr>\<rparr>)
                  llama_model [''data/quant.json''])))"
proof -
  let ?e1 = "env_with (args0\<lparr>parsed_data :=
                              (parsed_data args0)\<lparr>eval_with_do_generation := True\<rparr>,
                            parsed_training :=
                              (parsed_training args0)\<lparr>pipeline_parallel_degree := 2,
                                                        do_eval := True\<rparr>\<rparr>)
                  llama_model [''data/quant.json'']"
  let ?e2 = "env_with (args0\<lparr>parsed_training :=
                              (parsed_training args0)\<lparr>pipeline_parallel_degree := 2\<rparr>\<rparr>)
                  llama_model [''data/quant.json'']"
  have pp1: "1 < pipeline_parallel_degree (training_args (parse_args ?e1))"
    and ev1: "eval_with_do_generation (data_args (parse_args ?e1))"
      "do_eval (training_args (parse_args ?e1))"
    and pp2: "1 < pipeline_parallel_degree (training_args (parse_args ?e2))"
    and ev2: "\<not> eval_with_do_generation (data_args (parse_args ?e2))"
    by (simp_all add: example_defs aux_defs)
  have reach: "\<exists>s. at_model_config ?e1 = Inr s"
    by (simp add: run_defs)
  obtain s where reach2: "at_model_config ?e2 = Inr s"
    and pre: "continue_training (model_args s)" "\<not> autotuner_benchmark (training_args s)"
    by (simp add: run_defs)
  from pipeline_model_class [OF refl refl pp1] ev1 reach
  have "\<exists>tr. main ?e1 = Inl (ValueError pipeline_msg, tr)"
    by fastforce
  moreover from pipeline_model_class [OF refl refl pp2]
  have "ModelFromPretrained AutoModelForCausalLM \<notin> set (trace_of (main ?e2))"
    by fastforce
  moreover from pipeline_model_class [OF refl refl pp2] ev2 reach2 pre
  have "ModelFromPretrained AutoModelForCausalLMPipe \<in> set (trace_of (main ?e2))"
    by simp
  ultimately show ?thesis by blast
qed

subsection \<open>Flash mask\<close>




subsection \<open>Zero padding and evaluation with generation\<close>

lemma run_steps_append_Inr:
  assumes "run_steps (xs @ ys) s = Inr t"
  obtains u where "run_steps xs s = Inr u" "run_steps ys u = Inr t"
  using assms by (cases "run_steps xs s") (simp_all add: run_steps_append)

lemma at_quantization_split:
  "at_quantization ev =
     and_then (at_transformation ev)
       (run_steps [map_datasets, zero_pad_datasets, create_trainer])"
proof -
  have "setup_steps ev @ dataset_steps ev @ [create_trainer] =
          (setup_steps ev @ [load_datasets ev, resume_skip ev])
          @ [map_datasets, zero_pad_datasets, create_trainer]"
    by (simp add: dataset_steps_def)
  then show ?thesis
    unfolding at_quantization_def at_transformation_def by (simp only: run_steps_append)
qed

text \<open>Up to the construction of the model the data and model arguments are as parsed.\<close>

lemma at_flash_mask_args:
  assumes "at_flash_mask ev = Inr a"
  shows "data_args a = data_args (parse_args ev) \<and> model_args a = model_args (parse_args ev)"
proof -
  define s0 where "s0 = parse_args ev"
  let ?P = "\<lambda>a::st. data_args a = data_args s0 \<and> model_args a = model_args s0"
  let ?G = "\<lambda>x::error \<times> event list. True"
  have "case run_steps (dtype_steps ev @ model_steps ev) s0 of Inl x \<Rightarrow> ?G x | Inr b \<Rightarrow> ?P b"
  proof (rule run_steps_invariant [where P = ?P and G = ?G])
    fix f :: "st \<Rightarrow> st result" and a :: st
    assume f: "f \<in> set (dtype_steps ev @ model_steps ev)" and a: "?P a"
    from f a show "case f a of Inl x \<Rightarrow> ?G x | Inr b \<Rightarrow> ?P b"
      unfolding dtype_steps_def model_steps_def
      apply simp
      apply (elim disjE)
            apply (simp_all add: setup_step_defs)
      done
  qed simp
  with assms show ?thesis
    by (simp add: at_flash_mask_def s0_def)
qed

text \<open>
  The flash-mask block can only switch zero padding on, and the chat template can only
  switch evaluation with generation off.
\<close>

lemma tokenizer_steps_data_args:
  assumes "run_steps (tokenizer_steps ev) a = Inr b"
  shows "zero_padding (data_args b) = (zero_padding (data_args a) \<or> flash_mask (model_args a))
       \<and> eval_with_do_generation (data_args b)
           = (eval_with_do_generation (data_args a) \<and> \<not> tokenizer_chat_template ev)"
  using assms
  by (auto simp: tokenizer_steps_def force_flash_mask_def check_flash_mask_support_def
        register_hooks_def load_tokenizer_def raise_def Let_def split: if_splits)

lemma resume_skip_data_args:
  "resume_skip ev a = Inr b \<Longrightarrow> data_args b = data_args a"
  by (auto simp: resume_skip_def raise_def Let_def split: option.splits if_splits)

lemma at_transformation_data_args:
  assumes "at_transformation ev = Inr s"
  shows "zero_padding (data_args s)
           = (zero_padding (data_args (parse_args ev)) \<or> flash_mask (model_args (parse_args ev)))
       \<and> eval_with_do_generation (data_args s)
           = (eval_with_do_generation (data_args (parse_args ev))
              \<and> \<not> tokenizer_chat_template ev)"
proof -
  have "run_steps ((dtype_steps ev @ model_steps ev)
                   @ (tokenizer_steps ev @ ([load_datasets ev] @ [resume_skip ev])))
          (parse_args ev) = Inr s"
    using assms by (simp add: at_transformation_def setup_steps_def)
  from run_steps_append_Inr [OF this]
  obtain a where a: "at_flash_mask ev = Inr a"
    and rest: "run_steps (tokenizer_steps ev @ ([load_datasets ev] @ [resume_skip ev])) a
                 = Inr s"
    unfolding at_flash_mask_def by blast
  from run_steps_append_Inr [OF rest]
  obtain b where b: "run_steps (tokenizer_steps ev) a = Inr b"
    and rest': "run_steps ([load_datasets ev] @ [resume_skip ev]) b = Inr s"
    by blast
  from run_steps_append_Inr [OF rest']
  obtain c where c: "run_steps [load_datasets ev] b = Inr c"
    and d: "run_steps [resume_skip ev] c = Inr s"
    by blast
  from c have "load_datasets ev b = Inr c" by simp
  with load_datasets_effect [where ev = ev and a = b] have "data_args c = data_args b" by simp
  moreover from d have "resume_skip ev c = Inr s" by simp
  then have "data_args s = data_args c" by (rule resume_skip_data_args)
  ultimately show ?thesis
    using at_flash_mask_args [OF a] tokenizer_steps_data_args [OF b] by simp
qed

text \<open>
  C9, as amended. When \<open>data_args.zero_padding\<close> and
  \<open>data_args.eval_with_do_generation\<close> are both true on arrival at the dataset
  transformation of line 306, zero padding is disabled only for the evaluation dataset:
  \<open>main\<close> goes on to the quantization blocks with the dev set, when present, mapped
  with \<open>zero_padding\<close> false and not wrapped, and with the train and calibration sets,
  when present, mapped with \<open>zero_padding\<close> true and wrapped in
  \<open>ZeroPaddingIterableDataset\<close> if \<open>lazy\<close>, in \<open>ZeroPaddingMapDataset\<close>
  otherwise, with \<open>max_length\<close> equal to \<open>data_args.max_length\<close>. In terms of the
  parsed configuration, both are true on arrival exactly when \<open>zero_padding\<close> or
  \<open>flash_mask\<close> is set, \<open>eval_with_do_generation\<close> is set, and the tokenizer has
  no chat template.
\<close>

theorem eval_zero_padding_disabled:
  assumes reach: "at_transformation ev = Inr s"
  shows "((zero_padding (data_args s) \<and> eval_with_do_generation (data_args s))
          = ((zero_padding (data_args (parse_args ev)) \<or> flash_mask (model_args (parse_args ev)))
             \<and> eval_with_do_generation (data_args (parse_args ev))
             \<and> \<not> tokenizer_chat_template ev))
       \<and> (zero_padding (data_args s) \<and> eval_with_do_generation (data_args s) \<longrightarrow>
           (\<exists>t. at_quantization ev = Inr t
              \<and> main ev = run_steps (quant_steps @ final_steps) t
              \<and> \<not> eval_zero_padding t
              \<and> dev_ds t =
                  map_option
                    (\<lambda>d. Map d (trans t)
                           \<lparr>kw_is_test = True, kw_zero_padding = Some False,
                            kw_flash_mask = Some (flash_mask (model_args s))\<rparr>)
                    (dev_ds s)
              \<and> train_ds t =
                  map_option
                    (\<lambda>d. ZeroPad (if lazy (data_args s) then ZeroPaddingIterableDataset
                                  else ZeroPaddingMapDataset)
                           (Map d (trans t)
                              \<lparr>kw_is_test = False, kw_zero_padding = Some True,
                               kw_flash_mask = Some (flash_mask (model_args s))\<rparr>)
                           (max_length (data_args s))
                           (Some (greedy_zero_padding (data_args s))))
                    (train_ds s)
              \<and> ptq_ds t =
                  map_option
                    (\<lambda>d. ZeroPad (if lazy (data_args s) then ZeroPaddingIterableDataset
                                  else ZeroPaddingMapDataset)
                           (Map d (trans t)
                              \<lparr>kw_is_test = False, kw_zero_padding = Some True,
                               kw_flash_mask = Some (flash_mask (model_args s))\<rparr>)
                           (max_length (data_args s))
                           (Some (greedy_zero_padding (data_args s))))
                    (ptq_ds s)
              \<and> trans t = (if 1 < pipeline_parallel_degree (training_args s)
                            then ConvertExampleCommon else GetConvertExample)))"
proof (intro conjI impI)
  show "(zero_padding (data_args s) \<and> eval_with_do_generation (data_args s))
          = ((zero_padding (data_args (parse_args ev)) \<or> flash_mask (model_args (parse_args ev)))
             \<and> eval_with_do_generation (data_args (parse_args ev))
             \<and> \<not> tokenizer_chat_template ev)"
    using at_transformation_data_args [OF reach] by blast
next
  assume both: "zero_padding (data_args s) \<and> eval_with_do_generation (data_args s)"
  let ?t = "run_steps [map_datasets, zero_pad_datasets, create_trainer] s"
  have q: "at_quantization ev = ?t"
    by (simp add: at_quantization_split reach)
  from both obtain t where t: "?t = Inr t"
    by (simp add: map_datasets_def zero_pad_datasets_def create_trainer_def Let_def)
  with q have "at_quantization ev = Inr t" by simp
  moreover from this have "main ev = run_steps (quant_steps @ final_steps) t"
    by (simp add: main_split_quantization)
  moreover from t both
  have "\<not> eval_zero_padding t"
    and "dev_ds t =
                  map_option
                    (\<lambda>d. Map d (trans t)
                           \<lparr>kw_is_test = True, kw_zero_padding = Some False,
                            kw_flash_mask = Some (flash_mask (model_args s))\<rparr>)
                    (dev_ds s)"
    and "train_ds t =
                  map_option
                    (\<lambda>d. ZeroPad (if lazy (data_args s) then ZeroPaddingIterableDataset
                                  else ZeroPaddingMapDataset)
                           (Map d (trans t)
                              \<lparr>kw_is_test = False, kw_zero_padding = Some True,
                               kw_flash_mask = Some (flash_mask (model_args s))\<rparr>)
                           (max_length (data_args s))
                           (Some (greedy_zero_padding (data_args s))))
                    (train_ds s)"
    and "ptq_ds t =
                  map_option
                    (\<lambda>d. ZeroPad (if lazy (data_args s) then ZeroPaddingIterableDataset
                                  else ZeroPaddingMapDataset)
                           (Map d (trans t)
                              \<lparr>kw_is_test = False, kw_zero_padding = Some True,
                               kw_flash_mask = Some (flash_mask (model_args s))\<rparr>)
                           (max_length (data_args s))
                           (Some (greedy_zero_padding (data_args s))))
                    (ptq_ds s)"
    and "trans t = (if 1 < pipeline_parallel_degree (training_args s)
                            then ConvertExampleCommon else GetConvertExample)"
    by (auto simp: map_datasets_def zero_pad_datasets_def create_trainer_def Let_def
          option.map_comp comp_def)
  ultimately show "\<exists>t. at_quantization ev = Inr t
              \<and> main ev = run_steps (quant_steps @ final_steps) t
              \<and> \<not> eval_zero_padding t
              \<and> dev_ds t =
                  map_option
                    (\<lambda>d. Map d (trans t)
                           \<lparr>kw_is_test = True, kw_zero_padding = Some False,
                            kw_flash_mask = Some (flash_mask (model_args s))\<rparr>)
                    (dev_ds s)
              \<and> train_ds t =
                  map_option
                    (\<lambda>d. ZeroPad (if lazy (data_args s) then ZeroPaddingIterableDataset
                                  else ZeroPaddingMapDataset)
                           (Map d (trans t)
                              \<lparr>kw_is_test = False, kw_zero_padding = Some True,
                               kw_flash_mask = Some (flash_mask (model_args s))\<rparr>)
                           (max_length (data_args s))
                           (Some (greedy_zero_padding (data_args s))))
                    (train_ds s)
              \<and> ptq_ds t =
                  map_option
                    (\<lambda>d. ZeroPad (if lazy (data_args s) then ZeroPaddingIterableDataset
                                  else ZeroPaddingMapDataset)
                           (Map d (trans t)
                              \<lparr>kw_is_test = False, kw_zero_padding = Some True,
                               kw_flash_mask = Some (flash_mask (model_args s))\<rparr>)
                           (max_length (data_args s))
                           (Some (greedy_zero_padding (data_args s))))
                    (ptq_ds s)
              \<and> trans t = (if 1 < pipeline_parallel_degree (training_args s)
                            then ConvertExampleCommon else GetConvertExample)"
    by blast
qed

theorem eval_zero_padding_disabled_witness:
  "\<exists>t. at_quantization
          (env_with (args0\<lparr>parsed_quant := (parsed_quant args0)\<lparr>do_qat := True\<rparr>,
                           parsed_data :=
                             (parsed_data args0)\<lparr>eval_with_do_generation := True,
                                                   zero_padding := True\<rparr>,
                           parsed_training :=
                             (parsed_training args0)\<lparr>do_eval := True\<rparr>\<rparr>)
             llama_model [''data/train.json'', ''data/dev.json'']) = Inr t
     \<and> dev_ds t =
         Some (Map (Load (JsonFile ''data/dev.json'') (Some False)) GetConvertExample
                 \<lparr>kw_is_test = True, kw_zero_padding = Some False,
                  kw_flash_mask = Some False\<rparr>)
     \<and> train_ds t =
         Some (ZeroPad ZeroPaddingMapDataset
                 (Map (Load (JsonFile ''data/train.json'') (Some False)) GetConvertExample
                    \<lparr>kw_is_test = False, kw_zero_padding = Some True,
                     kw_flash_mask = Some False\<rparr>)
                 2048 (Some False))
     \<and> ptq_ds t =
         Some (ZeroPad ZeroPaddingMapDataset
                 (Map (Load (JsonFile ''data/train.json'') (Some False)) GetConvertExample
                    \<lparr>kw_is_test = False, kw_zero_padding = Some True,
                     kw_flash_mask = Some False\<rparr>)
                 2048 (Some False))"
proof -
  let ?ev = "env_with (args0\<lparr>parsed_quant := (parsed_quant args0)\<lparr>do_qat := True\<rparr>,
                           parsed_data :=
                             (parsed_data args0)\<lparr>eval_with_do_generation := True,
                                                   zero_padding := True\<rparr>,
                           parsed_training :=
                             (parsed_training args0)\<lparr>do_eval := True\<rparr>\<rparr>)
             llama_model [''data/train.json'', ''data/dev.json'']"
  obtain s where reach: "at_transformation ?ev = Inr s"
    and zp: "zero_padding (data_args s)"
    and gen: "eval_with_do_generation (data_args s)"
    and args: "\<not> lazy (data_args s)" "max_length (data_args s) = 2048"
      "\<not> greedy_zero_padding (data_args s)" "\<not> flash_mask (model_args s)"
      "pipeline_parallel_degree (training_args s) = 1"
    and ds: "train_ds s = Some (Load (JsonFile ''data/train.json'') (Some False))"
      "dev_ds s = Some (Load (JsonFile ''data/dev.json'') (Some False))"
      "ptq_ds s = Some (Load (JsonFile ''data/train.json'') (Some False))"
    by (simp add: run_defs)
  from eval_zero_padding_disabled [OF reach] zp gen args ds show ?thesis
    by auto
qed

text \<open>
  As first stated, with both flags true, the claim fails on a parsed configuration whose
  tokenizer has a chat template: line 182 resets \<open>eval_with_do_generation\<close>, and
  \<open>main\<close> completes with the dev set mapped with \<open>zero_padding\<close> true and wrapped
  in \<open>ZeroPaddingMapDataset\<close>.
\<close>

theorem eval_zero_padding_counterexample:
  "zero_padding
     (data_args (parse_args
        ((env_with (args0\<lparr>parsed_data :=
                             (parsed_data args0)\<lparr>eval_with_do_generation := True,
                                                   zero_padding := True\<rparr>,
                           parsed_training :=
                             (parsed_training args0)\<lparr>do_eval := True\<rparr>\<rparr>)
            llama_model [''data/dev.json'', ''data/quant.json''])
         \<lparr>tokenizer_chat_template := True\<rparr>)))
   \<and> eval_with_do_generation
       (data_args (parse_args
          ((env_with (args0\<lparr>parsed_data :=
                               (parsed_data args0)\<lparr>eval_with_do_generation := True,
                                                     zero_padding := True\<rparr>,
                             parsed_training :=
                               (parsed_training args0)\<lparr>do_eval := True\<rparr>\<rparr>)
              llama_model [''data/dev.json'', ''data/quant.json''])
           \<lparr>tokenizer_chat_template := True\<rparr>)))
   \<and> map_sum fst dev_ds
        (main ((env_with (args0\<lparr>parsed_data :=
                                   (parsed_data args0)\<lparr>eval_with_do_generation := True,
                                                         zero_padding := True\<rparr>,
                                 parsed_training :=
                                   (parsed_training args0)\<lparr>do_eval := True\<rparr>\<rparr>)
                  llama_model [''data/dev.json'', ''data/quant.json''])
               \<lparr>tokenizer_chat_template := True\<rparr>))
      = Inr (Some (ZeroPad ZeroPaddingMapDataset
                     (Map (Load (JsonFile ''data/dev.json'') (Some False)) GetConvertExample
                        \<lparr>kw_is_test = False, kw_zero_padding = Some True,
                         kw_flash_mask = Some False\<rparr>)
                     2048 None))"
  by (simp add: run_defs)

end
